theory Spec2Isabelle
  imports Complex_Main
begin

section \<open>PixelGrid: a PSF model on a grid of flux values\<close>

text \<open>
  A shallow embedding of \<^verbatim>\<open>piff/pixelgrid.py\<close>. Exceptions are values: a function that
  can raise returns \<open>error + 'a\<close>, with the exception on the left.
\<close>

datatype error =
    ValueError | IndexError | AssertionError | ZeroDivisionError | TypeError | AttributeError | LinAlgError

subsection \<open>Floating-point arithmetic\<close>

text \<open>
  The arrays of the code hold float64 values and its sums, products and quotients are the
  rounded operations of Python and numpy, which are not associative and have \<open>inf\<close> and
  \<open>nan\<close> among their results. The model does not fix them. An array element has an
  arbitrary type \<open>'f\<close>, and the operations are the fields of a record:
  \<^item> \<open>fl x\<close> is the array element for the number \<open>x\<close> (a literal, a configuration value, an
    integer converted to float64);
  \<^item> \<open>fadd\<close>, \<open>fsub\<close>, \<open>fmul\<close>, \<open>fdiv\<close>, \<open>fneg\<close> are \<^verbatim>\<open>+\<close>, \<^verbatim>\<open>-\<close>, \<^verbatim>\<open>*\<close>, \<^verbatim>\<open>/\<close> and unary minus on
    array elements, all total;
  \<^item> \<open>fsum\<close> is \<^verbatim>\<open>np.sum\<close> of a flattened array, in whatever order numpy adds;
  \<^item> \<open>fiszero x\<close> is the test \<^verbatim>\<open>x == 0\<close>.
  A statement proved for every such record holds for float64 with numpy's operations. The
  record \<open>exact_arith\<close> is the arithmetic of the real numbers, without rounding.
\<close>

record 'f arith =
  fl :: "real \<Rightarrow> 'f"
  fadd :: "'f \<Rightarrow> 'f \<Rightarrow> 'f"
  fsub :: "'f \<Rightarrow> 'f \<Rightarrow> 'f"
  fmul :: "'f \<Rightarrow> 'f \<Rightarrow> 'f"
  fdiv :: "'f \<Rightarrow> 'f \<Rightarrow> 'f"
  fneg :: "'f \<Rightarrow> 'f"
  fsum :: "'f list \<Rightarrow> 'f"
  fiszero :: "'f \<Rightarrow> bool"

definition exact_arith :: "real arith" where
  "exact_arith = \<lparr>fl = (\<lambda>x. x), fadd = (+), fsub = (-), fmul = (*), fdiv = (/),
     fneg = uminus, fsum = sum_list, fiszero = (\<lambda>x. x = 0)\<rparr>"


subsection \<open>Configuration\<close>

text \<open>
  The attributes set by \<^verbatim>\<open>PixelGrid.__init__\<close>. The interpolant \<^verbatim>\<open>self.interp\<close> is a GalSim
  object; the code uses its \<^verbatim>\<open>xval\<close> function and its \<^verbatim>\<open>xrange\<close> only, which are the two
  fields kept here. The model number \<^verbatim>\<open>self._num\<close> is \<^verbatim>\<open>None\<close> throughout. The scale, the
  positions of the pixels and the arguments of the kernel are real numbers: the index windows
  of \<^verbatim>\<open>chisq\<close> are integers computed from them.
\<close>

record PixelGrid =
  scale :: real
  size_g :: int
  interp_xval :: "real \<Rightarrow> real"
  interp_xrange :: real
  centered :: bool
  init_g :: "string option"
  fit_flux :: bool

definition maxuv :: "PixelGrid \<Rightarrow> real" where
  "maxuv g = (of_int (size_g g) + 1) / 2 * scale g"

definition origin :: "PixelGrid \<Rightarrow> int" where
  "origin g = size_g g div 2"

definition nparams :: "PixelGrid \<Rightarrow> int" where
  "nparams g = size_g g * size_g g"

definition PixelGrid_init ::
  "real \<Rightarrow> int \<Rightarrow> (real \<Rightarrow> real) \<Rightarrow> real \<Rightarrow> bool \<Rightarrow> string option \<Rightarrow> bool \<Rightarrow> error + PixelGrid" where
  "PixelGrid_init sc sz xv xrg cen ini ff =
     (if sz \<le> 0 then Inl ValueError
      else Inr \<lparr>scale = sc, size_g = sz, interp_xval = xv, interp_xrange = xrg,
                centered = cen, init_g = ini, fit_flux = ff\<rparr>)"

subsection \<open>The index windows of the fast path of \<^verbatim>\<open>chisq\<close>\<close>

text \<open>
  \<^verbatim>\<open>xr = int(np.ceil(self.interp.xrange))\<close>, and the clipping of one axis:
  \<^verbatim>\<open>
  i1 = vi[i] - xr + self._origin + 1
  i2 = vi[i] + xr + self._origin + 1
  p1 = 0
  p2 = 2*xr
  if i1 < 0:
      p1 = -i1
      i1 = 0
  if i2 > self.size:
      p2 -= i2 - self.size
      i2 = self.size
  \<close>
  The code runs it once for the \<open>v\<close> direction (\<open>i1, i2, p1, p2\<close>) and once for the \<open>u\<close>
  direction (\<open>j1, j2, q1, q2\<close>). The result is \<open>(i1, i2, p1, p2)\<close>.
\<close>

definition xr_of :: "PixelGrid \<Rightarrow> int" where
  "xr_of g = \<lceil>interp_xrange g\<rceil>"

definition clip_window :: "PixelGrid \<Rightarrow> int \<Rightarrow> int \<times> int \<times> int \<times> int" where
  "clip_window g vi =
     (let xr = xr_of g;
          i1 = vi - xr + origin g + 1;
          i2 = vi + xr + origin g + 1;
          p1 = 0;
          p2 = 2 * xr;
          (p1, i1) = (if i1 < 0 then (- i1, 0) else (p1, i1));
          (p2, i2) = (if i2 > size_g g then (p2 - (i2 - size_g g), size_g g) else (p2, i2))
      in (i1, i2, p1, p2))"

text \<open>
  A pixel is one entry of the four parallel arrays returned by
  \<^verbatim>\<open>star.data.getDataVector()\<close>. After \<^verbatim>\<open>u -= u0; v -= v0\<close> the mask keeps the pixels with
  \<^verbatim>\<open>(np.abs(u) <= self.maxuv) & (np.abs(v) <= self.maxuv) & (weight != 0)\<close>.
\<close>

record pixel =
  pix_data :: real
  pix_weight :: real
  pix_u :: real
  pix_v :: real

definition in_mask :: "PixelGrid \<Rightarrow> real \<times> real \<Rightarrow> pixel \<Rightarrow> bool" where
  "in_mask g c px =
     (\<bar>pix_u px - fst c\<bar> \<le> maxuv g \<and> \<bar>pix_v px - snd c\<bar> \<le> maxuv g \<and> pix_weight px \<noteq> 0)"

text \<open>
  \<^verbatim>\<open>u = u[mask] / self.scale; ui, uf = np.divmod(u, 1); ui = ui.astype(int)\<close>: the integer
  and the fractional part of the pixel's position in units of grid cells.
\<close>

definition cell_i :: "PixelGrid \<Rightarrow> real \<Rightarrow> int" where
  "cell_i g u = \<lfloor>u / scale g\<rfloor>"

definition cell_f :: "PixelGrid \<Rightarrow> real \<Rightarrow> real" where
  "cell_f g u = u / scale g - of_int \<lfloor>u / scale g\<rfloor>"

subsection \<open>Slices and the scatter into one row of \<open>A\<close>\<close>

text \<open>
  A Python slice \<^verbatim>\<open>xs[a:b]\<close> with step 1: a negative bound counts from the end, and both
  bounds are clamped to the length of the axis.
\<close>

definition slice_bound :: "nat \<Rightarrow> int \<Rightarrow> nat" where
  "slice_bound n k = (if k < 0 then nat (int n + k) else min n (nat k))"

definition py_slice :: "'a list \<Rightarrow> int \<Rightarrow> int \<Rightarrow> 'a list" where
  "py_slice xs a b =
     (let lo = slice_bound (length xs) a; hi = slice_bound (length xs) b
      in take (hi - lo) (drop lo xs))"

text \<open>\<^verbatim>\<open>col_index = np.arange(self._nparams).reshape(du.shape)\<close>, as a list of rows.\<close>

definition col_index :: "PixelGrid \<Rightarrow> nat list list" where
  "col_index g =
     (let n = nat (size_g g) in map (\<lambda>r. map (\<lambda>c. r * n + c) [0..<n]) [0..<n])"

text \<open>
  The interpolation weights of one pixel at the centred position \<open>(u, v)\<close>:
  \<^verbatim>\<open>
  argu = -uf[:,np.newaxis] + np.arange(-xr+1,xr+1)[np.newaxis,:]
  uwt = self.interp.xval(argu.ravel()).reshape(argu.shape)
  flux_scaling = star.data.pixel_area / self.pixel_area
  uwt *= flux_scaling
  uvwt = uwt[:, np.newaxis, :] * vwt[:, :, np.newaxis]
  \<close>
  so that \<open>uvwt[i, p, q] = uwt[i, q] * vwt[i, p]\<close>. The argument \<open>fs\<close> is \<^verbatim>\<open>flux_scaling\<close>.
\<close>

definition kernel_args :: "PixelGrid \<Rightarrow> real \<Rightarrow> real list" where
  "kernel_args g uf = map (\<lambda>m. - uf + of_int m) [- xr_of g + 1..xr_of g]"

definition uwt :: "PixelGrid \<Rightarrow> real \<Rightarrow> real \<Rightarrow> real list" where
  "uwt g fs u = map (\<lambda>a. interp_xval g a * fs) (kernel_args g (cell_f g u))"

definition vwt :: "PixelGrid \<Rightarrow> real \<Rightarrow> real list" where
  "vwt g v = map (interp_xval g) (kernel_args g (cell_f g v))"

definition uvwt :: "PixelGrid \<Rightarrow> real \<Rightarrow> real \<Rightarrow> real \<Rightarrow> real list list" where
  "uvwt g fs u v = map (\<lambda>vp. map (\<lambda>uq. uq * vp) (uwt g fs u)) (vwt g v)"

text \<open>
  \<^verbatim>\<open>cols = col_index[i1:i2, j1:j2]\<close> and \<^verbatim>\<open>uvwt[i, p1:p2, q1:q2]\<close>, both flattened by
  \<^verbatim>\<open>ravel()\<close>.
\<close>

definition win_cols :: "PixelGrid \<Rightarrow> real \<Rightarrow> real \<Rightarrow> nat list" where
  "win_cols g u v =
     (let (i1, i2, p1, p2) = clip_window g (cell_i g v);
          (j1, j2, q1, q2) = clip_window g (cell_i g u)
      in concat (map (\<lambda>row. py_slice row j1 j2) (py_slice (col_index g) i1 i2)))"

definition win_vals :: "PixelGrid \<Rightarrow> real \<Rightarrow> real \<Rightarrow> real \<Rightarrow> real list" where
  "win_vals g fs u v =
     (let (i1, i2, p1, p2) = clip_window g (cell_i g v);
          (j1, j2, q1, q2) = clip_window g (cell_i g u)
      in concat (map (\<lambda>row. py_slice row q1 q2) (py_slice (uvwt g fs u v) p1 p2)))"

subsection \<open>The legacy remap inside \<^verbatim>\<open>normalize\<close>\<close>

text \<open>\<^verbatim>\<open>self.pixel_area = self.scale*self.scale\<close>, a product of floats.\<close>

definition pixel_area :: "'f arith \<Rightarrow> PixelGrid \<Rightarrow> 'f" where
  "pixel_area ar g = fmul ar (fl ar (scale g)) (fl ar (scale g))"

text \<open>
  The flattened integer offset grids of \<^verbatim>\<open>u, v = np.meshgrid(delta_u, delta_v)\<close> with
  \<^verbatim>\<open>delta_u = np.arange(-origin[0], self.size-origin[0])\<close>: in row-major order the cell
  \<open>k = r * size + c\<close> has \<open>u = c - origin\<close> and \<open>v = r - origin\<close>.
\<close>

definition grid_u :: "PixelGrid \<Rightarrow> int list" where
  "grid_u g = (let n = nat (size_g g) in map (\<lambda>k. int (k mod n) - origin g) [0..<n * n])"

definition grid_v :: "PixelGrid \<Rightarrow> int list" where
  "grid_v g = (let n = nat (size_g g) in map (\<lambda>k. int (k div n) - origin g) [0..<n * n])"

text \<open>
  \<^verbatim>\<open>np.sum(v*temp)\<close>: the integer array \<open>v\<close> is converted to float64, multiplied element by
  element with \<open>temp\<close>, and the products are summed.
\<close>

definition moment :: "'f arith \<Rightarrow> int list \<Rightarrow> 'f list \<Rightarrow> 'f" where
  "moment ar w xs = fsum ar (map2 (\<lambda>i x. fmul ar (fl ar (of_int i)) x) w xs)"

text \<open>The flat index of the cell \<open>[r, c]\<close> of a \<open>size \<times> size\<close> array.\<close>

definition cell :: "PixelGrid \<Rightarrow> int \<Rightarrow> int \<Rightarrow> nat" where
  "cell g r c = nat r * nat (size_g g) + nat c"

text \<open>
  \<^verbatim>\<open>temp[mask] = params\<close> on an array of zeros \<open>z\<close>: the cells where the mask is true take
  the values in row-major order. A single value is broadcast to all of them; otherwise numpy
  raises \<^verbatim>\<open>ValueError\<close> when the number of values is not the number of true cells, which
  \<open>remap\<close> tests before it fills.
\<close>

fun fill_mask :: "'f \<Rightarrow> bool list \<Rightarrow> 'f list \<Rightarrow> 'f list" where
  "fill_mask z [] ps = []"
| "fill_mask z (False # ms) ps = z # fill_mask z ms ps"
| "fill_mask z (True # ms) [] = z # fill_mask z ms []"
| "fill_mask z (True # ms) (p # ps) = p # fill_mask z ms ps"

text \<open>
  \<^verbatim>\<open>
  mask = np.ones((self.size,self.size), dtype=bool)
  origin = (self.size//2, self.size//2)
  mask[origin] = False
  if nparams2 == nparams1 + 3:
      mask[origin[0]+1,origin[1]] = False
      mask[origin[0],origin[1]+1] = False
  \<close>
\<close>

definition legacy_mask :: "PixelGrid \<Rightarrow> bool \<Rightarrow> bool list" where
  "legacy_mask g three =
     (let org = origin g;
          mask = (replicate (nat (nparams g)) True)[cell g org org := False]
      in if three then mask[cell g (org + 1) org := False, cell g org (org + 1) := False] else mask)"

text \<open>
  The body of \<^verbatim>\<open>if nparams1 < nparams2:\<close> up to \<^verbatim>\<open>params = temp.flatten()\<close>:
  \<^verbatim>\<open>
  assert nparams2 - nparams1 in [1,3]
  temp = np.zeros((self.size,self.size))
  ...
  temp[mask] = params
  if nparams2 == nparams1 + 3:
      temp[origin[0]+1, origin[1]] = -np.sum(v*temp)
      temp[origin[0], origin[1]+1] = -np.sum(u*temp)
  temp[origin] = 1./self.pixel_area - np.sum(temp)
  \<close>
  \<^verbatim>\<open>np.zeros\<close> raises \<^verbatim>\<open>ValueError\<close> for a negative dimension, the index \<open>origin + 1\<close> is
  outside the array when \<open>size \<le> origin + 1\<close>, and \<^verbatim>\<open>1./self.pixel_area\<close>, a division of
  Python floats, raises \<^verbatim>\<open>ZeroDivisionError\<close> when the area is zero.
\<close>

definition remap :: "'f arith \<Rightarrow> PixelGrid \<Rightarrow> 'f list \<Rightarrow> error + 'f list" where
  "remap ar g ps =
     (let nparams1 = int (length ps);
          nparams2 = size_g g * size_g g;
          org = origin g;
          three = (nparams2 = nparams1 + 3);
          mask = legacy_mask g three;
          ntrue = length (filter id mask)
      in if nparams2 - nparams1 \<noteq> 1 \<and> nparams2 - nparams1 \<noteq> 3 then Inl AssertionError
         else if size_g g < 0 then Inl ValueError
         else if three \<and> size_g g \<le> org + 1 then Inl IndexError
         else if length ps \<noteq> ntrue \<and> length ps \<noteq> 1 then Inl ValueError
         else
           let vals = (if length ps = ntrue then ps else replicate ntrue (hd ps));
               temp = fill_mask (fl ar 0) mask vals;
               temp = (if three
                       then (let t1 = temp[cell g (org + 1) org := fneg ar (moment ar (grid_v g) temp)]
                             in t1[cell g org (org + 1) := fneg ar (moment ar (grid_u g) t1)])
                       else temp)
           in if fiszero ar (pixel_area ar g) then Inl ZeroDivisionError
              else Inr (temp[cell g org org :=
                          fsub ar (fdiv ar (fl ar 1) (pixel_area ar g)) (fsum ar temp)]))"

text \<open>
  The three cells that a vector of length \<open>nParams - 3\<close> leaves out: the centre
  \<^verbatim>\<open>[origin[0], origin[1]]\<close>, where \<open>u = v = 0\<close>, the cell \<^verbatim>\<open>[origin[0]+1, origin[1]]\<close>, where
  \<open>v = 1\<close>, and the cell \<^verbatim>\<open>[origin[0], origin[1]+1]\<close>, where \<open>u = 1\<close>.
\<close>

definition cell_centre :: "PixelGrid \<Rightarrow> nat" where
  "cell_centre g = cell g (origin g) (origin g)"

definition cell_v1 :: "PixelGrid \<Rightarrow> nat" where
  "cell_v1 g = cell g (origin g + 1) (origin g)"

definition cell_u1 :: "PixelGrid \<Rightarrow> nat" where
  "cell_u1 g = cell g (origin g) (origin g + 1)"

subsection \<open>Stars, fits and the arrays they share\<close>

text \<open>
  A numpy array is an object: \<^verbatim>\<open>params += dparam\<close> and \<^verbatim>\<open>params /= np.sum(params)\<close> change
  the array that \<open>params\<close> refers to, for every holder of a reference to it. The parameter
  arrays therefore live in a store, a list of arrays in which an address is an index; a
  new array is appended. Reading an address that was never allocated gives the empty array.
\<close>

type_synonym 'f store = "'f list list"

definition rd :: "'f store \<Rightarrow> nat \<Rightarrow> 'f list" where
  "rd h a = (if a < length h then h ! a else [])"

definition alloc :: "'f store \<Rightarrow> 'f list \<Rightarrow> 'f store \<times> nat" where
  "alloc h xs = (h @ [xs], length h)"

text \<open>
  The attributes of a \<^verbatim>\<open>StarFit\<close> that \<^verbatim>\<open>pixelgrid.py\<close> reads and writes: \<^verbatim>\<open>params\<close> (the
  address of the parameter array, or \<^verbatim>\<open>None\<close>), \<^verbatim>\<open>params_var\<close>, \<^verbatim>\<open>flux\<close>, \<^verbatim>\<open>center\<close>,
  \<^verbatim>\<open>chisq\<close>, \<^verbatim>\<open>dof\<close>, \<^verbatim>\<open>A\<close> and \<^verbatim>\<open>b\<close>. Of the data of a star the code uses the pixels
  returned by \<^verbatim>\<open>star.data.getDataVector()\<close>, \<^verbatim>\<open>star.data.pixel_area\<close> and the size
  estimate \<^verbatim>\<open>star.hsm[3]\<close> that GalSim's HSM computes from the image.
\<close>

record 'f StarFit =
  sf_params :: "nat option"
  sf_params_var :: "'f list option"
  sf_flux :: 'f
  sf_center :: "real \<times> real"
  sf_chisq :: "'f option"
  sf_dof :: "nat option"
  sf_A :: "'f list list option"
  sf_b :: "'f list option"

record 'f StarData =
  pixels :: "pixel list"
  data_pixel_area :: real
  hsm_sigma :: 'f

record 'f Star =
  star_data :: "'f StarData"
  star_fit :: "'f StarFit"

text \<open>
  Modelled from the spec: \<^verbatim>\<open>StarFit.get_params\<close> and \<^verbatim>\<open>StarFit.newParams\<close> of
  \<^verbatim>\<open>piff/star.py\<close>, which is not among the sources. The spec says of the parameter vector that
  it is ``owned per-star; lifecycle: created by Initializer, mutated in place by
  Least-Squares Solver, rewritten by Normalizer'', and of \<^verbatim>\<open>fit\<close> that it ``returns an updated
  star-like object carrying the new parameters, variances, and chisq''. So
  \<^item> \<^verbatim>\<open>get_params(None)\<close> returns the parameter array of the fit itself, not a copy;
  \<^item> \<^verbatim>\<open>newParams(params, params_var=None, num=None, chisq=None)\<close> returns a new fit record
    with \<open>params\<close> installed, with the variances and the chisq that are given, and with every
    other attribute as it was. It raises \<^verbatim>\<open>ValueError\<close> when the fit has parameters of another
    length: \<^verbatim>\<open>normalize\<close> removes ``the old one with the wrong size, so newParams doesn't
    complain about the size changing''. Whether the new fit holds the array it is given or
    a copy of it is not known: the flag \<open>cp\<close> chooses, and the statements below hold for
    both.
\<close>

definition get_params :: "'f StarFit \<Rightarrow> nat option" where
  "get_params fit = sf_params fit"

definition newParams ::
  "bool \<Rightarrow> 'f store \<Rightarrow> 'f StarFit \<Rightarrow> nat \<Rightarrow> 'f list option \<Rightarrow> 'f option
     \<Rightarrow> error + ('f store \<times> 'f StarFit)" where
  "newParams cp h fit a pvar chi =
     (if (case sf_params fit of None \<Rightarrow> False
          | Some old \<Rightarrow> length (rd h old) \<noteq> length (rd h a))
      then Inl ValueError
      else let (h', a') = (if cp then alloc h (rd h a) else (h, a))
           in Inr (h', fit\<lparr>sf_params := Some a',
                     sf_params_var := (case pvar of None \<Rightarrow> sf_params_var fit | Some pv \<Rightarrow> Some pv),
                     sf_chisq := (case chi of None \<Rightarrow> sf_chisq fit | Some c \<Rightarrow> Some c)\<rparr>))"

text \<open>The parameter values that a star carries, read through the store.\<close>

definition star_params :: "'f store \<Rightarrow> 'f Star \<Rightarrow> 'f list option" where
  "star_params h star = map_option (rd h) (sf_params (star_fit star))"

subsection \<open>\<^verbatim>\<open>normalize\<close>\<close>

text \<open>
  \<^verbatim>\<open>
  params = star.fit.get_params(self._num)
  nparams1 = len(params)
  nparams2 = self.size**2
  if nparams1 < nparams2:
      ...                       # the remap above
      params = temp.flatten()
      star.fit.params = None
  if not self._fit_flux:
      params /= np.sum(params)
      star.fit = star.fit.newParams(params, num=self._num)
  \<close>
  \<^verbatim>\<open>len(None)\<close> raises \<^verbatim>\<open>TypeError\<close>. The array \<^verbatim>\<open>temp.flatten()\<close> is a new one. The division
  is done in place, on the array that \<open>params\<close> refers to; numpy divides by a zero sum
  without raising. The star is an object that \<^verbatim>\<open>normalize\<close> changes: the function returns
  the store and the star as they are afterwards.
\<close>

definition normalize ::
  "'f arith \<Rightarrow> bool \<Rightarrow> PixelGrid \<Rightarrow> 'f store \<Rightarrow> 'f Star \<Rightarrow> error + ('f store \<times> 'f Star)" where
  "normalize ar cp g h star =
     (case get_params (star_fit star) of
        None \<Rightarrow> Inl TypeError
      | Some a0 \<Rightarrow>
          let nparams1 = int (length (rd h a0));
              nparams2 = size_g g * size_g g;
              r = (if nparams1 < nparams2
                   then (case remap ar g (rd h a0) of
                           Inl e \<Rightarrow> Inl e
                         | Inr t \<Rightarrow>
                             let (h1, a1) = alloc h t
                             in Inr (h1, a1, star\<lparr>star_fit := (star_fit star)\<lparr>sf_params := None\<rparr>\<rparr>))
                   else Inr (h, a0, star))
          in case r of
               Inl e \<Rightarrow> Inl e
             | Inr (h1, a, star1) \<Rightarrow>
                 if \<not> fit_flux g
                 then let s = fsum ar (rd h1 a);
                          h2 = h1[a := map (\<lambda>x. fdiv ar x s) (rd h1 a)]
                      in (case newParams cp h2 (star_fit star1) a None None of
                            Inl e \<Rightarrow> Inl e
                          | Inr (h3, fit') \<Rightarrow> Inr (h3, star1\<lparr>star_fit := fit'\<rparr>))
                 else Inr (h1, star1))"

subsection \<open>\<^verbatim>\<open>initialize\<close>\<close>

text \<open>
  The functions \<^verbatim>\<open>np.exp\<close>, \<^verbatim>\<open>sigma**2\<close> and \<^verbatim>\<open>np.sqrt\<close> on floats are not fixed either: they
  are the fields of a second record.
\<close>

record 'f mathlib =
  m_exp :: "'f \<Rightarrow> 'f"
  m_sqr :: "'f \<Rightarrow> 'f"
  m_sqrt :: "'f \<Rightarrow> 'f"

text \<open>
  \<^verbatim>\<open>
  init = self._init if self._init is not None else default_init
  if init is None: init = 'hsm'
  \<close>
\<close>

definition init_method :: "PixelGrid \<Rightarrow> string option \<Rightarrow> string" where
  "init_method g default_init =
     (case (case init_g g of Some i \<Rightarrow> Some i | None \<Rightarrow> default_init) of
        None \<Rightarrow> ''hsm'' | Some i \<Rightarrow> i)"

text \<open>
  The sampled Gaussian of the methods \<^verbatim>\<open>'hsm'\<close> and \<^verbatim>\<open>'zero'\<close>, normalized to unit sum:
  \<^verbatim>\<open>
  u = np.arange( -self._origin, self.size-self._origin) * self.scale
  v = np.arange( -self._origin, self.size-self._origin) * self.scale
  rsq = (u*u)[:,np.newaxis] + (v*v)[np.newaxis,:]
  gauss = np.exp(-rsq / (2.* sigma**2))
  params = gauss.ravel()
  params /= np.sum(params)
  \<close>
\<close>

definition gauss_params :: "'f arith \<Rightarrow> 'f mathlib \<Rightarrow> PixelGrid \<Rightarrow> 'f \<Rightarrow> 'f list" where
  "gauss_params ar ml g sigma =
     (let u = map (\<lambda>k. fmul ar (fl ar (of_int k)) (fl ar (scale g)))
                [- origin g..size_g g - origin g - 1];
          uu = map (\<lambda>x. fmul ar x x) u;
          rsq = concat (map (\<lambda>a. map (\<lambda>b. fadd ar a b) uu) uu);
          den = fmul ar (fl ar 2) (m_sqr ml sigma);
          gauss = map (\<lambda>r. m_exp ml (fdiv ar (fneg ar r) den)) rsq
      in map (\<lambda>x. fdiv ar x (fsum ar gauss)) gauss)"

text \<open>
  The method \<^verbatim>\<open>'delta'\<close>:
  \<^verbatim>\<open>
  params = np.zeros(self.size**2)
  icenter = self._origin * self.size + self._origin
  params[icenter] = 1.0
  \<close>
  An index below zero counts from the end, and an index outside the array raises
  \<^verbatim>\<open>IndexError\<close>.
\<close>

definition delta_params :: "'f arith \<Rightarrow> PixelGrid \<Rightarrow> error + 'f list" where
  "delta_params ar g =
     (let n = size_g g * size_g g;
          zeros = replicate (nat n) (fl ar 0);
          icenter = origin g * size_g g + origin g
      in if 0 \<le> icenter \<and> icenter < n then Inr (zeros[nat icenter := fl ar 1])
         else if - n \<le> icenter \<and> icenter < 0 then Inr (zeros[nat (n + icenter) := fl ar 1])
         else Inl IndexError)"

text \<open>
  The parameter vector that \<^verbatim>\<open>initialize\<close> builds, with \<^verbatim>\<open>params *= 1.e-10\<close> for the method
  \<^verbatim>\<open>'zero'\<close>, and \<^verbatim>\<open>ValueError\<close> for an unknown method.
\<close>

definition init_params ::
  "'f arith \<Rightarrow> 'f mathlib \<Rightarrow> PixelGrid \<Rightarrow> 'f Star \<Rightarrow> string option \<Rightarrow> error + 'f list" where
  "init_params ar ml g star default_init =
     (let init = init_method g default_init
      in if init = ''hsm'' \<or> init = ''zero''
         then (let sigma = hsm_sigma (star_data star);
                   params = gauss_params ar ml g sigma
               in if init = ''zero''
                  then Inr (map (\<lambda>x. fmul ar x (fl ar (1 / 10 ^ 10))) params)
                  else Inr params)
         else if init = ''delta'' then delta_params ar g
         else Inl ValueError)"

text \<open>
  \<^verbatim>\<open>
  fit = star.fit.newParams(params=params, num=self._num)
  return Star(star.data, fit)
  \<close>
  The vector is a new array; the star that is returned has the data of the input star.
\<close>

definition initialize ::
  "'f arith \<Rightarrow> 'f mathlib \<Rightarrow> bool \<Rightarrow> PixelGrid \<Rightarrow> 'f store \<Rightarrow> 'f Star \<Rightarrow> string option
     \<Rightarrow> error + ('f store \<times> 'f Star)" where
  "initialize ar ml cp g h star default_init =
     (case init_params ar ml g star default_init of
        Inl e \<Rightarrow> Inl e
      | Inr params \<Rightarrow>
          let (h1, a) = alloc h params
          in (case newParams cp h1 (star_fit star) a None None of
                Inl e \<Rightarrow> Inl e
              | Inr (h2, fit) \<Rightarrow> Inr (h2, \<lparr>star_data = star_data star, star_fit = fit\<rparr>)))"

text \<open>The parameter vector of the star that a call returns, or the exception it raises.\<close>

definition result_params :: "error + ('f store \<times> 'f Star) \<Rightarrow> error + 'f list option" where
  "result_params r = (case r of Inl e \<Rightarrow> Inl e | Inr (h, star) \<Rightarrow> Inr (star_params h star))"

subsection \<open>\<^verbatim>\<open>chisq\<close>\<close>

text \<open>
  GalSim, BLAS and LAPACK are outside the repository. What \<^verbatim>\<open>chisq\<close> and \<^verbatim>\<open>fit\<close> ask of them
  is a record of functions, each of which returns a value or raises:
  \<^item> \<open>sv_draw g params star\<close> is \<^verbatim>\<open>image.array.ravel()\<close> after the model, the
    \<^verbatim>\<open>galsim.InterpolatedImage\<close> of the reshaped parameters shifted by \<^verbatim>\<open>star.fit.center\<close>, has
    been drawn on a copy of the image of the star;
  \<^item> \<open>sv_matvec A x\<close> is \<^verbatim>\<open>A.dot(x)\<close>, \<open>sv_vdot x y\<close> is \<^verbatim>\<open>x.dot(y)\<close> and \<open>sv_gram n A\<close> is
    \<^verbatim>\<open>A.T.dot(A)\<close> for a matrix of \<open>n\<close> columns;
  \<^item> \<open>sv_lstsq n A b\<close> is the first component of
    \<^verbatim>\<open>scipy.linalg.lstsq(A, b, check_finite=False, cond=1.e-6, lapack_driver='gelsy')\<close> for
    a matrix of \<open>n\<close> columns;
  \<^item> \<open>sv_inv M\<close> is \<^verbatim>\<open>scipy.linalg.inv(M)\<close>, which raises \<^verbatim>\<open>LinAlgError\<close> for a singular
    matrix.
\<close>

record 'f services =
  sv_draw :: "PixelGrid \<Rightarrow> 'f list \<Rightarrow> 'f Star \<Rightarrow> error + 'f list"
  sv_matvec :: "'f list list \<Rightarrow> 'f list \<Rightarrow> 'f list"
  sv_vdot :: "'f list \<Rightarrow> 'f list \<Rightarrow> 'f"
  sv_gram :: "nat \<Rightarrow> 'f list list \<Rightarrow> 'f list list"
  sv_lstsq :: "nat \<Rightarrow> 'f list list \<Rightarrow> 'f list \<Rightarrow> error + 'f list"
  sv_inv :: "'f list list \<Rightarrow> error + 'f list list"

text \<open>
  The assignment \<^verbatim>\<open>A[i, cols.ravel()] = vals\<close> on one row. numpy first broadcasts the values
  to the shape of the index array, and raises \<^verbatim>\<open>ValueError\<close> unless they are as many as the
  columns or a single value; then it raises \<^verbatim>\<open>IndexError\<close> for a column outside the row.
\<close>

definition assign_cols :: "'f list \<Rightarrow> nat list \<Rightarrow> 'f list \<Rightarrow> error + 'f list" where
  "assign_cols row cols vals =
     (if length vals \<noteq> length cols \<and> length vals \<noteq> 1 then Inl ValueError
      else if \<exists>c \<in> set cols. length row \<le> c then Inl IndexError
      else if length vals = length cols
        then Inr (fold (\<lambda>(c, x) r. r[c := x]) (zip cols vals) row)
      else Inr (fold (\<lambda>c r. r[c := hd vals]) cols row))"

text \<open>
  The weights of one pixel as floats. \<^verbatim>\<open>flux_scaling = star.data.pixel_area / self.pixel_area\<close>
  is a division of Python floats, which raises \<^verbatim>\<open>ZeroDivisionError\<close> for a zero divisor;
  \<open>fs\<close> below is its value. \<^verbatim>\<open>uwt *= flux_scaling\<close> and
  \<^verbatim>\<open>uvwt = uwt[:, np.newaxis, :] * vwt[:, :, np.newaxis]\<close> are float products.
\<close>

definition uvwt_f :: "'f arith \<Rightarrow> PixelGrid \<Rightarrow> 'f \<Rightarrow> real \<Rightarrow> real \<Rightarrow> 'f list list" where
  "uvwt_f ar g fs u v =
     (let uw = map (\<lambda>a. fmul ar (fl ar (interp_xval g a)) fs) (kernel_args g (cell_f g u));
          vw = map (\<lambda>a. fl ar (interp_xval g a)) (kernel_args g (cell_f g v))
      in map (\<lambda>vp. map (\<lambda>uq. fmul ar uq vp) uw) vw)"

text \<open>
  One row of \<open>A\<close> on the fast path, before the factors \<^verbatim>\<open>star.fit.flux\<close> and \<^verbatim>\<open>sw\<close>:
  \<^verbatim>\<open>
  cols = col_index[i1:i2, j1:j2]
  A[i, cols.ravel()] = uvwt[i, p1:p2, q1:q2].ravel()
  \<close>
  on a row of \<^verbatim>\<open>np.zeros((nmask, self._nparams))\<close>.
\<close>

definition fast_row :: "'f arith \<Rightarrow> PixelGrid \<Rightarrow> 'f \<Rightarrow> real \<Rightarrow> real \<Rightarrow> error + 'f list" where
  "fast_row ar g fs u v =
     (let (i1, i2, p1, p2) = clip_window g (cell_i g v);
          (j1, j2, q1, q2) = clip_window g (cell_i g u);
          vals = concat (map (\<lambda>row. py_slice row q1 q2) (py_slice (uvwt_f ar g fs u v) p1 p2))
      in assign_cols (replicate (nat (nparams g)) (fl ar 0)) (win_cols g u v) vals)"

text \<open>The loop \<^verbatim>\<open>for i in range(nmask)\<close>: the first row that raises ends it.\<close>

fun fast_rows :: "'f arith \<Rightarrow> PixelGrid \<Rightarrow> 'f \<Rightarrow> real \<times> real \<Rightarrow> pixel list \<Rightarrow> error + 'f list list" where
  "fast_rows ar g fs c [] = Inr []"
| "fast_rows ar g fs c (px # pxs) =
     (case fast_row ar g fs (pix_u px - fst c) (pix_v px - snd c) of
        Inl e \<Rightarrow> Inl e
      | Inr row \<Rightarrow> (case fast_rows ar g fs c pxs of
                      Inl e \<Rightarrow> Inl e
                    | Inr rows \<Rightarrow> Inr (row # rows)))"

text \<open>
  Modelled from the spec: \<^verbatim>\<open>StarFit.withNew\<close> of \<^verbatim>\<open>piff/star.py\<close>, which is not among the sources.
  The contract of \<^verbatim>\<open>chisq\<close> in the spec is ``given a star with current ParameterVector, compute
  (A, b, chisq, dof)'', and its docstring says that the ``returned Star instance has the
  resultant (A, b, chisq) attributes, but params vector has not have been updated yet''. So
  \<^verbatim>\<open>withNew\<close> returns the fit with the attributes that are given, and with every other
  attribute as it was.

  \<^verbatim>\<open>chisq\<close> with \<^verbatim>\<open>convert_func=None\<close> and \<^verbatim>\<open>draw_method=None\<close>:
  \<^verbatim>\<open>
  data, weight, u, v = star.data.getDataVector()
  ...                                      # the model is drawn
  model = image.array.ravel() * star.fit.flux
  u0, v0 = star.fit.center
  u -= u0
  v -= v0
  mask = (np.abs(u) <= self.maxuv) & (np.abs(v) <= self.maxuv) & (weight != 0)
  nmask = np.sum(mask)
  data = data[mask]
  model = model[mask]
  weight = weight[mask]
  A = np.zeros((nmask, self._nparams), dtype=float, order='F')
  b = data - model
  ...                                      # the rows of A
  A *= star.fit.flux
  sw = np.sqrt(weight)
  A *= sw[:,np.newaxis]
  b *= sw
  chisq = np.sum(b**2)
  dof = np.count_nonzero(weight)
  return Star(star.data, star.fit.withNew(chisq=chisq, dof=dof, A=A, b=b))
  \<close>
  \<^verbatim>\<open>self.getProfile(params)\<close> begins with \<^verbatim>\<open>params.reshape(self.size,self.size)\<close>, which raises
  \<^verbatim>\<open>AttributeError\<close> for \<^verbatim>\<open>None\<close> and \<^verbatim>\<open>ValueError\<close> for a vector that has not \<open>size * size\<close>
  entries; \<^verbatim>\<open>model[mask]\<close> raises \<^verbatim>\<open>IndexError\<close> when the image does not have as many pixels
  as the mask.
\<close>

definition chisq ::
  "'f arith \<Rightarrow> 'f mathlib \<Rightarrow> 'f services \<Rightarrow> PixelGrid \<Rightarrow> 'f store \<Rightarrow> 'f Star \<Rightarrow> error + 'f Star" where
  "chisq ar ml sv g h star =
     (case get_params (star_fit star) of
        None \<Rightarrow> Inl AttributeError
      | Some a \<Rightarrow>
         if size_g g < 0 \<or> int (length (rd h a)) \<noteq> size_g g * size_g g then Inl ValueError
         else
         (case sv_draw sv g (rd h a) star of
            Inl e \<Rightarrow> Inl e
          | Inr img \<Rightarrow>
              let pxs = pixels (star_data star);
                  flux = sf_flux (star_fit star);
                  c = sf_center (star_fit star);
                  model = map (\<lambda>x. fmul ar x flux) img;
                  kept = filter (\<lambda>(px, m). in_mask g c px) (zip pxs model);
                  data = map (\<lambda>(px, m). fl ar (pix_data px)) kept;
                  weight = map (\<lambda>(px, m). fl ar (pix_weight px)) kept;
                  b = map2 (fsub ar) data (map snd kept)
              in if length model \<noteq> length pxs then Inl IndexError
                 else if fiszero ar (pixel_area ar g) then Inl ZeroDivisionError
                 else
                   let fs = fdiv ar (fl ar (data_pixel_area (star_data star))) (pixel_area ar g)
                   in (case fast_rows ar g fs c (map fst kept) of
                         Inl e \<Rightarrow> Inl e
                       | Inr A0 \<Rightarrow>
                           let A1 = map (map (\<lambda>x. fmul ar x flux)) A0;
                               sw = map (m_sqrt ml) weight;
                               A2 = map2 (\<lambda>row s. map (\<lambda>x. fmul ar x s) row) A1 sw;
                               b2 = map2 (fmul ar) b sw;
                               chi = fsum ar (map (\<lambda>x. fmul ar x x) b2);
                               dof = length (filter (\<lambda>w. \<not> fiszero ar w) weight)
                           in Inr \<lparr>star_data = star_data star,
                                   star_fit = (star_fit star)\<lparr>sf_chisq := Some chi,
                                      sf_dof := Some dof, sf_A := Some A2, sf_b := Some b2\<rparr>\<rparr>)))"

subsection \<open>\<^verbatim>\<open>fit\<close>\<close>

text \<open>\<^verbatim>\<open>np.diagonal\<close> of a matrix given by its rows.\<close>

definition diagonal :: "'f list list \<Rightarrow> 'f list" where
  "diagonal M = map (\<lambda>i. M ! i ! i) [0..<min (length M) (if M = [] then 0 else length (hd M))]"

text \<open>
  \<^verbatim>\<open>params += dparam\<close> on the array at the address \<open>a\<close>: numpy adds in place, element by
  element. The update must have the length of the array or be a single value, which is
  added to every element; otherwise numpy raises \<^verbatim>\<open>ValueError\<close>.
\<close>

definition iadd :: "'f arith \<Rightarrow> 'f store \<Rightarrow> nat \<Rightarrow> 'f list \<Rightarrow> error + 'f store" where
  "iadd ar h a d =
     (if length d = length (rd h a) then Inr (h[a := map2 (fadd ar) (rd h a) d])
      else if length d = 1 then Inr (h[a := map (\<lambda>x. fadd ar x (hd d)) (rd h a)])
      else Inl ValueError)"

text \<open>
  \<^verbatim>\<open>
  Adp = star1.fit.A.dot(dparam)
  new_chisq = star1.fit.chisq + Adp.dot(Adp) - 2 * Adp.dot(star1.fit.b)
  \<close>
\<close>

definition new_chisq :: "'f arith \<Rightarrow> 'f services \<Rightarrow> 'f list list \<Rightarrow> 'f list \<Rightarrow> 'f \<Rightarrow> 'f list \<Rightarrow> 'f" where
  "new_chisq ar sv A b chi dparam =
     (let Adp = sv_matvec sv A dparam
      in fsub ar (fadd ar chi (sv_vdot sv Adp Adp)) (fmul ar (fl ar 2) (sv_vdot sv Adp b)))"

text \<open>
  \<^verbatim>\<open>
  try:
      params_var = np.diagonal(scipy.linalg.inv(star1.fit.A.T.dot(star1.fit.A)))
  except np.linalg.LinAlgError as e:
      params_var = np.ones_like(dparam) * 1.e100
  \<close>
  Only \<^verbatim>\<open>LinAlgError\<close> is caught.
\<close>

definition params_var :: "'f arith \<Rightarrow> 'f services \<Rightarrow> nat \<Rightarrow> 'f list list \<Rightarrow> 'f list \<Rightarrow> error + 'f list" where
  "params_var ar sv n A dparam =
     (case sv_inv sv (sv_gram sv n A) of
        Inr M \<Rightarrow> Inr (diagonal M)
      | Inl e \<Rightarrow>
          if e = LinAlgError
          then Inr (map (\<lambda>x. fmul ar (fl ar 1) (fl ar (10 ^ 100))) dparam)
          else Inl e)"

text \<open>
  \<^verbatim>\<open>
  star1 = self.chisq(star, logger=logger, convert_func=convert_func)
  dparam = scipy.linalg.lstsq(star1.fit.A, star1.fit.b, check_finite=False, cond=1.e-6,
                              lapack_driver='gelsy')[0]
  ...                                      # new_chisq and params_var
  params = star.fit.get_params(self._num)
  params += dparam
  star = Star(star1.data, star1.fit.newParams(params=params, params_var=params_var,
                                              num=self._num, chisq=new_chisq))
  self.normalize(star)
  return star
  \<close>
  \<^verbatim>\<open>fit\<close> with \<^verbatim>\<open>convert_func=None\<close> and \<^verbatim>\<open>draw_method=None\<close>. \<^verbatim>\<open>A.dot(dparam)\<close> raises
  \<^verbatim>\<open>ValueError\<close> when \<open>dparam\<close> has not as many entries as \<open>A\<close> has columns, and
  \<^verbatim>\<open>None += dparam\<close> raises \<^verbatim>\<open>TypeError\<close>. The result is the store after the call and the
  star that is returned.
\<close>

definition fit ::
  "'f arith \<Rightarrow> 'f mathlib \<Rightarrow> 'f services \<Rightarrow> bool \<Rightarrow> PixelGrid \<Rightarrow> 'f store \<Rightarrow> 'f Star
     \<Rightarrow> error + ('f store \<times> 'f Star)" where
  "fit ar ml sv cp g h star =
     (case chisq ar ml sv g h star of
        Inl e \<Rightarrow> Inl e
      | Inr star1 \<Rightarrow>
         (case (sf_A (star_fit star1), sf_b (star_fit star1), sf_chisq (star_fit star1)) of
            (Some A, Some b, Some chi) \<Rightarrow>
              let n = nat (nparams g)
              in (case sv_lstsq sv n A b of
                    Inl e \<Rightarrow> Inl e
                  | Inr dparam \<Rightarrow>
                      if length dparam \<noteq> n then Inl ValueError
                      else
                        (case params_var ar sv n A dparam of
                           Inl e \<Rightarrow> Inl e
                         | Inr pvar \<Rightarrow>
                            (case get_params (star_fit star) of
                               None \<Rightarrow> Inl TypeError
                             | Some a \<Rightarrow>
                                (case iadd ar h a dparam of
                                   Inl e \<Rightarrow> Inl e
                                 | Inr h1 \<Rightarrow>
                                    (case newParams cp h1 (star_fit star1) a (Some pvar)
                                            (Some (new_chisq ar sv A b chi dparam)) of
                                       Inl e \<Rightarrow> Inl e
                                     | Inr (h2, fit2) \<Rightarrow>
                                         normalize ar cp g h2
                                           \<lparr>star_data = star_data star1, star_fit = fit2\<rparr>)))))
          | _ \<Rightarrow> Inl TypeError))"

subsection \<open>Example configurations\<close>

definition grid_lin3 :: PixelGrid where
  "grid_lin3 = \<lparr>scale = 1, size_g = 3,
     interp_xval = (\<lambda>x. if \<bar>x\<bar> < 1 then 1 - \<bar>x\<bar> else 0), interp_xrange = 1,
     centered = True, init_g = None, fit_flux = False\<rparr>"

definition grid_delta5 :: PixelGrid where
  "grid_delta5 = \<lparr>scale = 1, size_g = 5, interp_xval = (\<lambda>x. 0), interp_xrange = 0,
     centered = True, init_g = None, fit_flux = False\<rparr>"

definition grid_2 :: PixelGrid where
  "grid_2 = \<lparr>scale = 1, size_g = 2,
     interp_xval = (\<lambda>x. if \<bar>x\<bar> < 1 then 1 - \<bar>x\<bar> else 0), interp_xrange = 1,
     centered = True, init_g = None, fit_flux = False\<rparr>"

definition grid_flux3 :: PixelGrid where
  "grid_flux3 = grid_lin3\<lparr>fit_flux := True\<rparr>"

definition fit_at :: "nat \<Rightarrow> real StarFit" where
  "fit_at a = \<lparr>sf_params = Some a, sf_params_var = None, sf_flux = 1, sf_center = (0, 0),
     sf_chisq = None, sf_dof = None, sf_A = None, sf_b = None\<rparr>"

definition star_at :: "nat \<Rightarrow> real Star" where
  "star_at a = \<lparr>star_data = \<lparr>pixels = [], data_pixel_area = 1, hsm_sigma = 1\<rparr>,
     star_fit = fit_at a\<rparr>"

text \<open>
  A grid of a single cell and a star of a single pixel at the centre, with the exact
  arithmetic and libraries that solve a system of one equation exactly.
\<close>

definition grid_one :: PixelGrid where
  "grid_one = \<lparr>scale = 1, size_g = 1,
     interp_xval = (\<lambda>x. if \<bar>x\<bar> < 1 then 1 - \<bar>x\<bar> else 0), interp_xrange = 1,
     centered = True, init_g = None, fit_flux = False\<rparr>"

definition grid_one_flux :: PixelGrid where
  "grid_one_flux = grid_one\<lparr>fit_flux := True\<rparr>"

definition star_one :: "real Star" where
  "star_one = \<lparr>star_data = \<lparr>pixels = [\<lparr>pix_data = 2, pix_weight = 1, pix_u = 0, pix_v = 0\<rparr>],
                   data_pixel_area = 1, hsm_sigma = 1\<rparr>,
     star_fit = fit_at 0\<rparr>"


definition ml_exact :: "real mathlib" where
  "ml_exact = \<lparr>m_exp = exp, m_sqr = (\<lambda>x. x * x), m_sqrt = sqrt\<rparr>"

definition sv_one :: "real services" where
  "sv_one = \<lparr>sv_draw = (\<lambda>g ps star. Inr ps),
     sv_matvec = (\<lambda>A x. map (\<lambda>row. sum_list (map2 (*) row x)) A),
     sv_vdot = (\<lambda>x y. sum_list (map2 (*) x y)),
     sv_gram = (\<lambda>n A. map (\<lambda>i. map (\<lambda>j. sum_list (map (\<lambda>row. row ! i * row ! j) A)) [0..<n]) [0..<n]),
     sv_lstsq = (\<lambda>n A b. Inr (case (A, b) of ([[a]], [y]) \<Rightarrow> [y / a] | _ \<Rightarrow> replicate n 0)),
     sv_inv = (\<lambda>M. case M of [[m]] \<Rightarrow> (if m = 0 then Inl LinAlgError else Inr [[1 / m]])
                      | _ \<Rightarrow> Inl LinAlgError)\<rparr>"

section \<open>Properties\<close>

subsection \<open>The index windows stay inside the grid\<close>

lemma cell_i_upper:
  assumes "0 < scale g" "\<bar>v\<bar> \<le> maxuv g"
  shows "cell_i g v \<le> (size_g g + 1) div 2"
proof -
  have "v / scale g \<le> of_int (size_g g + 1) / of_int 2"
    using assms by (simp add: maxuv_def field_simps)
  then have "\<lfloor>v / scale g\<rfloor> \<le> \<lfloor>(of_int (size_g g + 1) :: real) / of_int 2\<rfloor>"
    by (rule floor_mono)
  then show ?thesis unfolding cell_i_def floor_divide_of_int_eq .
qed

lemma cell_i_lower:
  assumes "0 < scale g" "\<bar>v\<bar> \<le> maxuv g"
  shows "- (size_g g div 2) - 1 \<le> cell_i g v"
proof -
  have "of_int (- (size_g g + 1)) / of_int 2 \<le> v / scale g"
    using assms by (simp add: maxuv_def field_simps)
  then have "\<lfloor>(of_int (- (size_g g + 1)) :: real) / of_int 2\<rfloor> \<le> \<lfloor>v / scale g\<rfloor>"
    by (rule floor_mono)
  then have "(- (size_g g + 1)) div 2 \<le> cell_i g v"
    unfolding cell_i_def floor_divide_of_int_eq .
  then show ?thesis by linarith
qed

lemma clip_window_bounds:
  assumes "0 < scale g" "0 < size_g g" "1 \<le> xr_of g" "\<bar>v\<bar> \<le> maxuv g"
    and "clip_window g (cell_i g v) = (i1, i2, p1, p2)"
  shows "0 \<le> i1 \<and> i1 \<le> i2 \<and> i2 \<le> size_g g \<and> i2 - i1 = p2 - p1 \<and> 0 \<le> p1 \<and> p2 \<le> 2 * xr_of g"
proof -
  have u: "cell_i g v \<le> (size_g g + 1) div 2" using assms cell_i_upper by blast
  have l: "- (size_g g div 2) - 1 \<le> cell_i g v" using assms cell_i_lower by blast
  show ?thesis
    using assms(2,3,5) u l
    by (auto simp: clip_window_def Let_def origin_def split: if_splits)
qed

lemma py_slice_plain:
  assumes "0 \<le> a" "a \<le> b" "b \<le> int (length xs)"
  shows "py_slice xs a b = take (nat b - nat a) (drop (nat a) xs)"
  using assms by (simp add: py_slice_def slice_bound_def Let_def min_def)

lemma py_slice_map_upt:
  assumes "0 \<le> a" "a \<le> b" "b \<le> int n"
  shows "py_slice (map f [0..<n]) a b = map f [nat a..<nat b]"
proof -
  have "py_slice (map f [0..<n]) a b = take (nat b - nat a) (drop (nat a) (map f [0..<n]))"
    using assms by (simp add: py_slice_plain)
  also have "\<dots> = map f (take (nat b - nat a) [nat a..<n])"
    by (simp add: drop_map take_map)
  also have "take (nat b - nat a) [nat a..<n] = [nat a..<nat b]"
    using assms by (simp add: take_upt)
  finally show ?thesis .
qed

lemma upto_as_upt: "[a..a + int n - 1] = map (\<lambda>k. a + int k) [0..<n]"
proof (induction n)
  case 0
  show ?case by simp
next
  case (Suc n)
  have "[a..a + int (Suc n) - 1] = [a..a + int n - 1] @ [a + int n]"
    using upto_rec2 [of a "a + int n"] by simp
  then show ?case using Suc by simp
qed

lemma kernel_args_upt:
  assumes "0 \<le> xr_of g"
  shows "kernel_args g uf = map (\<lambda>k. - uf + of_int (int k - xr_of g + 1)) [0..<nat (2 * xr_of g)]"
proof -
  have "[- xr_of g + 1..xr_of g] = map (\<lambda>k. (- xr_of g + 1) + int k) [0..<nat (2 * xr_of g)]"
    using upto_as_upt [of "- xr_of g + 1" "nat (2 * xr_of g)"] assms by simp
  then show ?thesis by (simp add: kernel_args_def o_def algebra_simps)
qed

lemma length_concat_grid: "length (concat (map (\<lambda>r. map (f r) cs) rs)) = length rs * length cs"
  by (induction rs) simp_all

lemma win_cols_grid:
  assumes "clip_window g (cell_i g v) = (i1, i2, p1, p2)"
    and "clip_window g (cell_i g u) = (j1, j2, q1, q2)"
    and "0 \<le> i1" "i1 \<le> i2" "i2 \<le> size_g g" "0 \<le> j1" "j1 \<le> j2" "j2 \<le> size_g g"
  shows "win_cols g u v =
     concat (map (\<lambda>r. map (\<lambda>c. r * nat (size_g g) + c) [nat j1..<nat j2]) [nat i1..<nat i2])"
proof -
  let ?n = "nat (size_g g)"
  have outer: "py_slice (col_index g) i1 i2 = map (\<lambda>r. map (\<lambda>c. r * ?n + c) [0..<?n]) [nat i1..<nat i2]"
    unfolding col_index_def Let_def using assms(3-5) by (intro py_slice_map_upt) simp_all
  have inner: "py_slice (map (\<lambda>c. r * ?n + c) [0..<?n]) j1 j2 = map (\<lambda>c. r * ?n + c) [nat j1..<nat j2]" for r
    using assms(6-8) by (intro py_slice_map_upt) simp_all
  show ?thesis
    by (simp add: win_cols_def assms(1,2) outer inner o_def)
qed

lemma uvwt_grid:
  assumes "0 \<le> xr_of g"
  shows "uvwt g fs u v =
    map (\<lambda>p. map (\<lambda>q. interp_xval g (- cell_f g u + of_int (int q - xr_of g + 1)) * fs
                      * interp_xval g (- cell_f g v + of_int (int p - xr_of g + 1)))
               [0..<nat (2 * xr_of g)]) [0..<nat (2 * xr_of g)]"
  by (simp add: uvwt_def uwt_def vwt_def kernel_args_upt [OF assms] o_def)

lemma win_vals_grid:
  assumes "clip_window g (cell_i g v) = (i1, i2, p1, p2)"
    and "clip_window g (cell_i g u) = (j1, j2, q1, q2)"
    and "0 \<le> p1" "p1 \<le> p2" "p2 \<le> 2 * xr_of g" "0 \<le> q1" "q1 \<le> q2" "q2 \<le> 2 * xr_of g"
  shows "win_vals g fs u v =
     concat (map (\<lambda>p. map (\<lambda>q. interp_xval g (- cell_f g u + of_int (int q - xr_of g + 1)) * fs
                      * interp_xval g (- cell_f g v + of_int (int p - xr_of g + 1)))
               [nat q1..<nat q2]) [nat p1..<nat p2])"
proof -
  let ?m = "nat (2 * xr_of g)"
  let ?w = "\<lambda>p q. interp_xval g (- cell_f g u + of_int (int q - xr_of g + 1)) * fs
                      * interp_xval g (- cell_f g v + of_int (int p - xr_of g + 1))"
  have xr: "0 \<le> xr_of g" using assms(3-5) by linarith
  have outer: "py_slice (map (\<lambda>p. map (?w p) [0..<?m]) [0..<?m]) p1 p2
      = map (\<lambda>p. map (?w p) [0..<?m]) [nat p1..<nat p2]"
    using assms(3-5) by (intro py_slice_map_upt) simp_all
  have inner: "py_slice (map (?w p) [0..<?m]) q1 q2 = map (?w p) [nat q1..<nat q2]" for p
    using assms(6-8) by (intro py_slice_map_upt) simp_all
  have "win_vals g fs u v
      = concat (map (\<lambda>row. py_slice row q1 q2) (py_slice (uvwt g fs u v) p1 p2))"
    by (simp add: win_vals_def assms(1,2))
  also have "\<dots> = concat (map (\<lambda>row. py_slice row q1 q2) (map (\<lambda>p. map (?w p) [0..<?m]) [nat p1..<nat p2]))"
    by (simp only: uvwt_grid [OF xr] outer)
  also have "\<dots> = concat (map (\<lambda>p. map (?w p) [nat q1..<nat q2]) [nat p1..<nat p2])"
    by (simp only: map_map o_def inner)
  finally show ?thesis .
qed

lemma grid_cols_bound:
  assumes "b \<le> n" "d \<le> n"
  shows "\<forall>k \<in> set (concat (map (\<lambda>r. map (\<lambda>c. r * n + c) [c0..<d]) [a..<b])). k < n * n"
proof
  fix k assume "k \<in> set (concat (map (\<lambda>r. map (\<lambda>c. r * n + c) [c0..<d]) [a..<b]))"
  then obtain r where r: "r < b" and k: "k < d + r * n" by auto
  have "r + 1 \<le> n" using r assms by simp
  then have le: "(r + 1) * n \<le> n * n" by (rule mult_le_mono1)
  have "d + r * n \<le> (r + 1) * n" using assms by simp
  then show "k < n * n" using k le by linarith
qed

text \<open>
  Claim C10, as amended. For a pixel kept by the mask, on a grid with \<open>scale > 0\<close> and
  \<open>size > 0\<close> and a kernel with \<open>xr = ceil(xrange) \<ge> 1\<close>, the clipped windows satisfy
  \<open>0 \<le> i1 \<le> i2 \<le> size\<close>, \<open>0 \<le> j1 \<le> j2 \<le> size\<close>, \<open>i2 - i1 = p2 - p1\<close> and
  \<open>j2 - j1 = q2 - q1\<close>; every column index written by the scatter is below \<open>nParams\<close>, and
  the values are as many as the columns.
\<close>

theorem window_in_bounds:
  assumes "0 < scale g" "0 < size_g g" "1 \<le> xr_of g" "in_mask g c px"
    and v: "clip_window g (cell_i g (pix_v px - snd c)) = (i1, i2, p1, p2)"
    and u: "clip_window g (cell_i g (pix_u px - fst c)) = (j1, j2, q1, q2)"
  shows "0 \<le> i1 \<and> i1 \<le> i2 \<and> i2 \<le> size_g g \<and> 0 \<le> j1 \<and> j1 \<le> j2 \<and> j2 \<le> size_g g
       \<and> i2 - i1 = p2 - p1 \<and> j2 - j1 = q2 - q1
       \<and> (\<forall>k \<in> set (win_cols g (pix_u px - fst c) (pix_v px - snd c)). k < nat (nparams g))
       \<and> length (win_vals g fs (pix_u px - fst c) (pix_v px - snd c))
           = length (win_cols g (pix_u px - fst c) (pix_v px - snd c))"
proof -
  have mv: "\<bar>pix_v px - snd c\<bar> \<le> maxuv g" and mu: "\<bar>pix_u px - fst c\<bar> \<le> maxuv g"
    using assms(4) by (simp_all add: in_mask_def)
  have bv: "0 \<le> i1 \<and> i1 \<le> i2 \<and> i2 \<le> size_g g \<and> i2 - i1 = p2 - p1 \<and> 0 \<le> p1 \<and> p2 \<le> 2 * xr_of g"
    using clip_window_bounds [OF assms(1-3) mv v] .
  have bu: "0 \<le> j1 \<and> j1 \<le> j2 \<and> j2 \<le> size_g g \<and> j2 - j1 = q2 - q1 \<and> 0 \<le> q1 \<and> q2 \<le> 2 * xr_of g"
    using clip_window_bounds [OF assms(1-3) mu u] .
  have cols: "win_cols g (pix_u px - fst c) (pix_v px - snd c) =
     concat (map (\<lambda>r. map (\<lambda>c. r * nat (size_g g) + c) [nat j1..<nat j2]) [nat i1..<nat i2])"
    using win_cols_grid [OF v u] bv bu by simp
  have vals: "win_vals g fs (pix_u px - fst c) (pix_v px - snd c) =
     concat (map (\<lambda>p. map (\<lambda>q. interp_xval g (- cell_f g (pix_u px - fst c) + of_int (int q - xr_of g + 1)) * fs
                      * interp_xval g (- cell_f g (pix_v px - snd c) + of_int (int p - xr_of g + 1)))
               [nat q1..<nat q2]) [nat p1..<nat p2])"
    using win_vals_grid [OF v u] bv bu by simp
  have np: "nat (nparams g) = nat (size_g g) * nat (size_g g)"
    using assms(2) by (simp add: nparams_def nat_mult_distrib)
  have i2n: "nat i2 \<le> nat (size_g g)" and j2n: "nat j2 \<le> nat (size_g g)"
    using bv bu by (simp_all add: nat_mono)
  have inb: "\<forall>k \<in> set (win_cols g (pix_u px - fst c) (pix_v px - snd c)). k < nat (nparams g)"
    unfolding cols np using i2n j2n by (rule grid_cols_bound)
  have "nat p2 - nat p1 = nat i2 - nat i1" "nat q2 - nat q1 = nat j2 - nat j1"
    using bv bu by linarith+
  then have len: "length (win_vals g fs (pix_u px - fst c) (pix_v px - snd c))
           = length (win_cols g (pix_u px - fst c) (pix_v px - snd c))"
    unfolding cols vals by (simp add: length_concat_grid)
  show ?thesis using bv bu inb len by simp
qed

lemma grid_lin3_facts: "scale grid_lin3 = 1" "size_g grid_lin3 = 3" "xr_of grid_lin3 = 1" "origin grid_lin3 = 1" "maxuv grid_lin3 = 2"
  by (simp_all add: grid_lin3_def xr_of_def origin_def maxuv_def)

theorem window_in_bounds_witness:
  "0 < scale grid_lin3 \<and> 0 < size_g grid_lin3 \<and> 1 \<le> xr_of grid_lin3
   \<and> in_mask grid_lin3 (0, 0) \<lparr>pix_data = 0, pix_weight = 1, pix_u = 1/2, pix_v = -2\<rparr>
   \<and> clip_window grid_lin3 (cell_i grid_lin3 (-2)) = (0, 1, 1, 2)
   \<and> clip_window grid_lin3 (cell_i grid_lin3 (1/2)) = (1, 3, 0, 2)
   \<and> length (win_vals grid_lin3 1 (1/2) (-2)) = length (win_cols grid_lin3 (1/2) (-2))"
proof -
  have a: "0 < scale grid_lin3" "0 < size_g grid_lin3" "1 \<le> xr_of grid_lin3"
    by (simp_all add: grid_lin3_facts)
  have m: "in_mask grid_lin3 (0, 0) \<lparr>pix_data = 0, pix_weight = 1, pix_u = 1/2, pix_v = -2\<rparr>"
    by (simp add: in_mask_def grid_lin3_facts)
  have v: "clip_window grid_lin3 (cell_i grid_lin3 (pix_v \<lparr>pix_data = 0, pix_weight = 1, pix_u = 1/2, pix_v = -2\<rparr> - snd (0::real, 0::real))) = (0, 1, 1, 2)"
    by (simp add: clip_window_def cell_i_def grid_lin3_facts Let_def)
  have u: "clip_window grid_lin3 (cell_i grid_lin3 (pix_u \<lparr>pix_data = 0, pix_weight = 1, pix_u = 1/2, pix_v = -2\<rparr> - fst (0::real, 0::real))) = (1, 3, 0, 2)"
    by (simp add: clip_window_def cell_i_def grid_lin3_facts Let_def)
  show ?thesis
    using window_in_bounds [OF a m v u, of 1] a m v u by simp
qed

text \<open>
  The claim C10 as stated, without a bound on \<open>xr\<close>, fails for a kernel with \<open>xrange = 0\<close>:
  on a grid of size 5 the pixel at \<open>v = 3\<close> is kept by the mask and its window is
  \<open>i1 = 6 > i2 = 5\<close> with \<open>p2 = -1\<close>.
\<close>

theorem window_xr0_counterexample:
  "in_mask grid_delta5 (0, 0) \<lparr>pix_data = 0, pix_weight = 1, pix_u = 0, pix_v = 3\<rparr>
   \<and> clip_window grid_delta5 (cell_i grid_delta5 (3 - 0)) = (6, 5, 0, - 1)"
  by (simp add: in_mask_def clip_window_def cell_i_def grid_delta5_def xr_of_def origin_def maxuv_def Let_def)

subsection \<open>The legacy remap\<close>

lemma length_fill_mask: "length (fill_mask z ms ps) = length ms"
  by (induction z ms ps rule: fill_mask.induct) simp_all

lemma fill_mask_masked: "i < length ms \<Longrightarrow> \<not> ms ! i \<Longrightarrow> fill_mask z ms ps ! i = z"
proof (induction z ms ps arbitrary: i rule: fill_mask.induct)
  case (1 z ps)
  then show ?case by simp
next
  case (2 z ms ps)
  then show ?case by (cases i) simp_all
next
  case (3 z ms)
  then show ?case by (cases i) simp_all
next
  case (4 z ms p ps)
  then show ?case by (cases i) simp_all
qed

lemma nth_shift:
  "map ((!) (x # xs)) (filter ((!) (m # ms)) (map Suc ks)) = map ((!) xs) (filter ((!) ms) ks)"
  by (induction ks) simp_all

lemma upt_0_Suc: "[0..<Suc n] = 0 # map Suc [0..<n]"
  by (simp add: upt_conv_Cons map_Suc_upt del: upt_Suc)

lemma fill_mask_values:
  "length (filter id ms) = length ps \<Longrightarrow>
     map ((!) (fill_mask z ms ps)) (filter ((!) ms) [0..<length ms]) = ps"
proof (induction z ms ps rule: fill_mask.induct)
  case (1 z ps)
  then show ?case by simp
next
  case (2 z ms ps)
  have "map ((!) (fill_mask z (False # ms) ps)) (filter ((!) (False # ms)) [0..<length (False # ms)])
      = map ((!) (z # fill_mask z ms ps)) (filter ((!) (False # ms)) (map Suc [0..<length ms]))"
    by (simp add: upt_0_Suc del: upt_Suc)
  also have "\<dots> = map ((!) (fill_mask z ms ps)) (filter ((!) ms) [0..<length ms])"
    by (rule nth_shift)
  also have "\<dots> = ps" using 2 by simp
  finally show ?case .
next
  case (3 z ms)
  then show ?case by simp
next
  case (4 z ms p ps)
  have "map ((!) (fill_mask z (True # ms) (p # ps))) (filter ((!) (True # ms)) [0..<length (True # ms)])
      = p # map ((!) (p # fill_mask z ms ps)) (filter ((!) (True # ms)) (map Suc [0..<length ms]))"
    by (simp add: upt_0_Suc del: upt_Suc)
  also have "\<dots> = p # map ((!) (fill_mask z ms ps)) (filter ((!) ms) [0..<length ms])"
    by (simp only: nth_shift)
  also have "\<dots> = p # ps" using 4 by simp
  finally show ?case .
qed

lemma count_true_update:
  "i < length ms \<Longrightarrow> ms ! i \<Longrightarrow> length (filter id (ms[i := False])) + 1 = length (filter id ms)"
proof (induction ms arbitrary: i)
  case Nil
  then show ?case by simp
next
  case (Cons m ms)
  then show ?case by (cases i) auto
qed

lemma count_true_replicate: "length (filter id (replicate N True)) = N"
  by (induction N) simp_all

lemma cell_lt:
  assumes "r < n" "c < (n::nat)"
  shows "r * n + c < n * n"
proof -
  have "r + 1 \<le> n" using assms by simp
  then have "(r + 1) * n \<le> n * n" by (rule mult_le_mono1)
  then show ?thesis using assms by simp
qed

lemma cell_inj:
  assumes "0 \<le> r" "0 \<le> c" "c < size_g g" "0 \<le> r'" "0 \<le> c'" "c' < size_g g"
    and "cell g r c = cell g r' c'"
  shows "r = r' \<and> c = c'"
proof -
  let ?n = "nat (size_g g)"
  have e: "nat r * ?n + nat c = nat r' * ?n + nat c'" using assms(7) by (simp add: cell_def)
  have "(nat r * ?n + nat c) mod ?n = nat c" "(nat r' * ?n + nat c') mod ?n = nat c'"
    using assms by simp_all
  then have c: "nat c = nat c'" using e by simp
  have "(nat r * ?n + nat c) div ?n = nat r" "(nat r' * ?n + nat c') div ?n = nat r'"
    using assms by simp_all
  then have "nat r = nat r'" using e by simp
  then show ?thesis using c assms(1,2,4,5) by linarith
qed

lemma reserved_cells:
  assumes sz: "3 \<le> size_g g"
  shows "cell_centre g < nat (nparams g)" "cell_v1 g < nat (nparams g)"
    "cell_u1 g < nat (nparams g)"
    "cell_centre g \<noteq> cell_v1 g" "cell_centre g \<noteq> cell_u1 g" "cell_v1 g \<noteq> cell_u1 g"
proof -
  define org where "org = origin g"
  define n where "n = nat (size_g g)"
  have o: "0 \<le> org" "org + 1 < size_g g" "org < size_g g"
    using sz by (simp_all add: org_def origin_def)
  have N: "nat (nparams g) = n * n"
    using sz by (simp add: nparams_def n_def nat_mult_distrib)
  have "nat org < n" "nat (org + 1) < n" using o by (simp_all add: n_def)
  then show "cell_centre g < nat (nparams g)" "cell_v1 g < nat (nparams g)"
    "cell_u1 g < nat (nparams g)"
    unfolding N cell_centre_def cell_v1_def cell_u1_def cell_def org_def [symmetric]
      n_def [symmetric]
    by (simp_all add: cell_lt)
  show "cell_centre g \<noteq> cell_v1 g"
  proof
    assume "cell_centre g = cell_v1 g"
    then have "cell g org org = cell g (org + 1) org"
      by (simp add: cell_centre_def cell_v1_def org_def)
    with o have "org = org + 1 \<and> org = org" by (intro cell_inj) simp_all
    then show False by simp
  qed
  show "cell_centre g \<noteq> cell_u1 g"
  proof
    assume "cell_centre g = cell_u1 g"
    then have "cell g org org = cell g org (org + 1)"
      by (simp add: cell_centre_def cell_u1_def org_def)
    with o have "org = org \<and> org = org + 1" by (intro cell_inj) simp_all
    then show False by simp
  qed
  show "cell_v1 g \<noteq> cell_u1 g"
  proof
    assume "cell_v1 g = cell_u1 g"
    then have "cell g (org + 1) org = cell g org (org + 1)"
      by (simp add: cell_v1_def cell_u1_def org_def)
    with o have "org + 1 = org \<and> org = org + 1" by (intro cell_inj) simp_all
    then show False by simp
  qed
qed

lemma legacy_mask3:
  "legacy_mask g True
     = (replicate (nat (nparams g)) True)[cell_centre g := False, cell_v1 g := False,
          cell_u1 g := False]"
  by (simp add: legacy_mask_def Let_def cell_centre_def cell_v1_def cell_u1_def)

lemma legacy_mask3_count:
  assumes sz: "3 \<le> size_g g"
  shows "length (filter id (legacy_mask g True)) + 3 = nat (nparams g)"
proof -
  let ?N = "nat (nparams g)"
  let ?c0 = "cell_centre g" and ?c1 = "cell_v1 g" and ?c2 = "cell_u1 g"
  note rc = reserved_cells [OF sz]
  have k1: "length (filter id ((replicate ?N True)[?c0 := False])) + 1 = ?N"
    using count_true_update [of ?c0 "replicate ?N True"] rc(1)
    by (simp add: count_true_replicate)
  have k2: "length (filter id ((replicate ?N True)[?c0 := False, ?c1 := False])) + 1
      = length (filter id ((replicate ?N True)[?c0 := False]))"
    using count_true_update [of ?c1 "(replicate ?N True)[?c0 := False]"] rc(2,4)
    by simp
  have k3: "length (filter id (legacy_mask g True)) + 1
      = length (filter id ((replicate ?N True)[?c0 := False, ?c1 := False]))"
    unfolding legacy_mask3
    using count_true_update [of ?c2 "(replicate ?N True)[?c0 := False, ?c1 := False]"] rc(3,5,6)
    by simp
  show ?thesis using k1 k2 k3 by linarith
qed

lemma legacy_mask3_nth:
  assumes sz: "3 \<le> size_g g" and k: "k < nat (nparams g)"
  shows "legacy_mask g True ! k = (k \<noteq> cell_centre g \<and> k \<noteq> cell_v1 g \<and> k \<noteq> cell_u1 g)"
proof -
  have "(replicate (nat (nparams g)) True)[cell_centre g := False, cell_v1 g := False,
          cell_u1 g := False] ! k
      = (if k = cell_u1 g then False else if k = cell_v1 g then False
         else if k = cell_centre g then False else True)"
    using k by (simp add: nth_list_update)
  then show ?thesis unfolding legacy_mask3 by auto
qed

lemma remap_three:
  assumes sz: "3 \<le> size_g g" and pa: "\<not> fiszero ar (pixel_area ar g)"
    and len: "int (length ps) + 3 = nparams g"
  shows "remap ar g ps =
     (let t0 = fill_mask (fl ar 0) (legacy_mask g True) ps;
          t1 = t0[cell_v1 g := fneg ar (moment ar (grid_v g) t0)];
          t2 = t1[cell_u1 g := fneg ar (moment ar (grid_u g) t1)]
      in Inr (t2[cell_centre g :=
                fsub ar (fdiv ar (fl ar 1) (pixel_area ar g)) (fsum ar t2)]))"
proof -
  have d: "size_g g * size_g g = int (length ps) + 3" using len by (simp add: nparams_def)
  have o: "\<not> size_g g \<le> origin g + 1" using sz by (simp add: origin_def)
  have "int (length (filter id (legacy_mask g True))) + 3 = nparams g"
    using legacy_mask3_count [OF sz] sz by (simp add: nparams_def)
  then have cnt: "length (filter id (legacy_mask g True)) = length ps" using len by simp
  show ?thesis
    using d o pa cnt sz
    by (simp add: remap_def Let_def cell_centre_def cell_v1_def cell_u1_def)
qed


text \<open>
  Claim C2, as amended. On a grid of size at least 3 whose pixel area \<open>scale * scale\<close> is not
  zero as a float, the remap of a vector of length \<open>nParams - 3\<close> succeeds, in every
  arithmetic. It returns a vector \<open>t\<close> of length \<open>nParams\<close> that holds the supplied values,
  in order, in the cells that are not reserved, and whose reserved cells satisfy, with the
  sums, products and differences of the code:
  \<^item> the cell with \<open>v = 1\<close> is minus \<open>\<Sum> v * t\<close> taken with the three reserved cells at zero;
  \<^item> the cell with \<open>u = 1\<close> is minus \<open>\<Sum> u * t\<close> taken with itself and the centre at zero, so
    that it is solved after the first one and before the centre;
  \<^item> the centre is \<open>1 / pixelArea\<close> minus the sum of \<open>t\<close> taken with the centre at zero, that
    is the sum of all other values.
\<close>

theorem remap_legacy3:
  assumes sz: "3 \<le> size_g g" and pa: "\<not> fiszero ar (pixel_area ar g)"
    and len: "int (length ps) + 3 = nparams g"
  shows "\<exists>t. remap ar g ps = Inr t \<and> length t = nat (nparams g)
     \<and> map ((!) t) (filter (\<lambda>k. k \<noteq> cell_centre g \<and> k \<noteq> cell_v1 g \<and> k \<noteq> cell_u1 g)
                        [0..<length t]) = ps
     \<and> t ! cell_v1 g = fneg ar (moment ar (grid_v g)
           (t[cell_centre g := fl ar 0, cell_v1 g := fl ar 0, cell_u1 g := fl ar 0]))
     \<and> t ! cell_u1 g = fneg ar (moment ar (grid_u g)
           (t[cell_centre g := fl ar 0, cell_u1 g := fl ar 0]))
     \<and> t ! cell_centre g = fsub ar (fdiv ar (fl ar 1) (pixel_area ar g))
           (fsum ar (t[cell_centre g := fl ar 0]))"
proof -
  let ?c0 = "cell_centre g" and ?c1 = "cell_v1 g" and ?c2 = "cell_u1 g"
  let ?N = "nat (nparams g)"
  let ?z = "fl ar 0"
  define mask where "mask = legacy_mask g True"
  define t0 where "t0 = fill_mask ?z mask ps"
  define t1 where "t1 = t0[?c1 := fneg ar (moment ar (grid_v g) t0)]"
  define t2 where "t2 = t1[?c2 := fneg ar (moment ar (grid_u g) t1)]"
  define t3 where
    "t3 = t2[?c0 := fsub ar (fdiv ar (fl ar 1) (pixel_area ar g)) (fsum ar t2)]"
  note rc = reserved_cells [OF sz]
  have r: "remap ar g ps = Inr t3"
    using remap_three [OF sz pa len]
    by (simp add: Let_def t3_def t2_def t1_def t0_def mask_def)
  have lm: "length mask = ?N" by (simp add: mask_def legacy_mask3)
  have l0: "length t0 = ?N" by (simp add: t0_def length_fill_mask lm)
  have l3: "length t3 = ?N" by (simp add: t3_def t2_def t1_def l0)
  have mf: "\<not> mask ! ?c0" "\<not> mask ! ?c1" "\<not> mask ! ?c2"
    using rc by (simp_all add: mask_def legacy_mask3_nth [OF sz])
  have z0: "t0 ! ?c0 = ?z" "t0 ! ?c1 = ?z" "t0 ! ?c2 = ?z"
    using mf rc lm by (simp_all add: t0_def fill_mask_masked)
  have e2: "t3[?c0 := ?z] = t2"
    using z0 rc by (simp add: t3_def t2_def t1_def list_update_same_conv l0)
  have e1: "t3[?c0 := ?z, ?c2 := ?z] = t1"
    using z0 rc by (simp add: e2 t2_def t1_def list_update_same_conv l0)
  have e0: "t3[?c0 := ?z, ?c1 := ?z, ?c2 := ?z] = t0"
  proof (rule nth_equalityI)
    show "length (t3[?c0 := ?z, ?c1 := ?z, ?c2 := ?z]) = length t0" by (simp add: l3 l0)
  next
    fix i assume "i < length (t3[?c0 := ?z, ?c1 := ?z, ?c2 := ?z])"
    then have i: "i < ?N" by (simp add: l3)
    show "t3[?c0 := ?z, ?c1 := ?z, ?c2 := ?z] ! i = t0 ! i"
      using i z0 rc by (auto simp add: t3_def t2_def t1_def l0 nth_list_update)
  qed
  have v1: "t3 ! ?c1 = fneg ar (moment ar (grid_v g) t0)"
    using rc by (simp add: t3_def t2_def t1_def l0)
  have v2: "t3 ! ?c2 = fneg ar (moment ar (grid_u g) t1)"
    using rc by (simp add: t3_def t2_def t1_def l0)
  have v3: "t3 ! ?c0 = fsub ar (fdiv ar (fl ar 1) (pixel_area ar g)) (fsum ar t2)"
    using rc by (simp add: t3_def t2_def t1_def l0)
  have "int (length (filter id mask)) + 3 = nparams g"
    using legacy_mask3_count [OF sz] sz by (simp add: nparams_def mask_def)
  then have cnt: "length (filter id mask) = length ps" using len by simp
  have fm: "map ((!) t0) (filter ((!) mask) [0..<length mask]) = ps"
    unfolding t0_def using cnt by (rule fill_mask_values)
  have f1: "filter (\<lambda>k. k \<noteq> ?c0 \<and> k \<noteq> ?c1 \<and> k \<noteq> ?c2) [0..<?N]
      = filter ((!) mask) [0..<?N]"
    by (rule filter_cong) (simp_all add: mask_def legacy_mask3_nth [OF sz])
  have mc: "map ((!) t3) (filter ((!) mask) [0..<?N]) = map ((!) t0) (filter ((!) mask) [0..<?N])"
  proof (rule map_cong)
    fix k assume "k \<in> set (filter ((!) mask) [0..<?N])"
    then have "k < ?N" "mask ! k" by simp_all
    then have "k \<noteq> ?c0" "k \<noteq> ?c1" "k \<noteq> ?c2" using mf by auto
    then show "t3 ! k = t0 ! k" by (simp add: t3_def t2_def t1_def)
  qed simp
  have vals: "map ((!) t3) (filter (\<lambda>k. k \<noteq> ?c0 \<and> k \<noteq> ?c1 \<and> k \<noteq> ?c2) [0..<length t3]) = ps"
    unfolding l3 f1 mc using fm unfolding lm .
  show ?thesis
  proof (intro exI [of _ t3] conjI)
    show "remap ar g ps = Inr t3" by (rule r)
    show "length t3 = ?N" by (rule l3)
    show "map ((!) t3) (filter (\<lambda>k. k \<noteq> ?c0 \<and> k \<noteq> ?c1 \<and> k \<noteq> ?c2) [0..<length t3]) = ps"
      by (rule vals)
    show "t3 ! ?c1 = fneg ar (moment ar (grid_v g) (t3[?c0 := ?z, ?c1 := ?z, ?c2 := ?z]))"
      unfolding e0 by (rule v1)
    show "t3 ! ?c2 = fneg ar (moment ar (grid_u g) (t3[?c0 := ?z, ?c2 := ?z]))"
      unfolding e1 by (rule v2)
    show "t3 ! ?c0 = fsub ar (fdiv ar (fl ar 1) (pixel_area ar g)) (fsum ar (t3[?c0 := ?z]))"
      unfolding e2 by (rule v3)
  qed
qed

theorem remap_legacy3_witness:
  "3 \<le> size_g grid_lin3 \<and> \<not> fiszero exact_arith (pixel_area exact_arith grid_lin3)
   \<and> int (length [1, 2, 3, 4, 5, 6 :: real]) + 3 = nparams grid_lin3
   \<and> (\<exists>t. remap exact_arith grid_lin3 [1, 2, 3, 4, 5, 6] = Inr t
        \<and> length t = nat (nparams grid_lin3)
        \<and> t ! cell_centre grid_lin3 = fsub exact_arith
             (fdiv exact_arith (fl exact_arith 1) (pixel_area exact_arith grid_lin3))
             (fsum exact_arith (t[cell_centre grid_lin3 := fl exact_arith 0])))"
proof -
  have a: "3 \<le> size_g grid_lin3" "\<not> fiszero exact_arith (pixel_area exact_arith grid_lin3)"
    "int (length [1, 2, 3, 4, 5, 6 :: real]) + 3 = nparams grid_lin3"
    by (simp_all add: grid_lin3_def nparams_def pixel_area_def exact_arith_def)
  from remap_legacy3 [OF a] a show ?thesis by blast
qed


text \<open>
  The claim C2 as stated, for every grid, fails on a grid of size 2: there \<open>origin = 1\<close>, and
  the reserved cell \<open>[origin + 1, origin]\<close> is outside the \<open>2 \<times> 2\<close> array, so that
  \<^verbatim>\<open>mask[origin[0]+1,origin[1]] = False\<close> raises \<^verbatim>\<open>IndexError\<close> for a vector of length
  \<open>nParams - 3 = 1\<close>, whatever its value.
\<close>

lemma remap_size2:
  assumes "size_g g = 2" and "length ps = 1"
  shows "remap ar g ps = Inl IndexError"
  using assms by (simp add: remap_def origin_def Let_def)


theorem remap_size2_counterexample:
  "int (length [5 :: real]) = nparams grid_2 - 3 \<and> remap exact_arith grid_2 [5] = Inl IndexError"
  by (simp add: remap_def grid_2_def origin_def nparams_def Let_def)


text \<open>
  In the arithmetic of the real numbers the equations of the reserved cells say that both
  first moments of the result vanish and that the centre is \<open>1 / pixelArea\<close> minus the sum
  of the other values. In float64 they say so up to the rounding of the three sums only.
\<close>

lemma moment_exact_update:
  "length w = length ys \<Longrightarrow> i < length ys \<Longrightarrow>
     moment exact_arith w (ys[i := a])
       = moment exact_arith w ys + of_int (w ! i) * (a - ys ! i)"
proof (induction w ys arbitrary: i rule: list_induct2)
  case Nil
  then show ?case by simp
next
  case (Cons x xs y ys)
  show ?case
  proof (cases i)
    case 0
    then show ?thesis by (simp add: moment_def exact_arith_def algebra_simps)
  next
    case (Suc j)
    then have "j < length ys" using Cons.prems by simp
    then have "moment exact_arith xs (ys[j := a])
        = moment exact_arith xs ys + of_int (xs ! j) * (a - ys ! j)"
      by (rule Cons.IH)
    then show ?thesis using Suc by (simp add: moment_def exact_arith_def)
  qed
qed

lemma sum_list_update_real:
  fixes ys :: "real list"
  shows "i < length ys \<Longrightarrow> sum_list (ys[i := a]) = sum_list ys + a - ys ! i"
proof (induction ys arbitrary: i)
  case Nil
  then show ?case by simp
next
  case (Cons y ys)
  then show ?case by (cases i) simp_all
qed

lemma grid_nth:
  assumes "0 \<le> r" "r < size_g g" "0 \<le> c" "c < size_g g"
  shows "grid_u g ! cell g r c = c - origin g" "grid_v g ! cell g r c = r - origin g"
proof -
  let ?n = "nat (size_g g)"
  have lt: "nat r * ?n + nat c < ?n * ?n" using assms by (intro cell_lt) simp_all
  have m: "(nat r * ?n + nat c) mod ?n = nat c" using assms by simp
  have d: "(nat r * ?n + nat c) div ?n = nat r" using assms by simp
  show "grid_u g ! cell g r c = c - origin g"
    using lt assms m by (simp add: grid_u_def cell_def Let_def)
  show "grid_v g ! cell g r c = r - origin g"
    using lt assms d by (simp add: grid_v_def cell_def Let_def)
qed

lemma remap_exact_moments:
  assumes sz: "3 \<le> size_g g" and sc: "scale g \<noteq> 0"
    and len: "int (length ps) + 3 = nparams g"
  shows "\<exists>t. remap exact_arith g ps = Inr t
     \<and> moment exact_arith (grid_v g) t = 0 \<and> moment exact_arith (grid_u g) t = 0
     \<and> t ! cell_centre g = 1 / (scale g * scale g) - (sum_list t - t ! cell_centre g)"
proof -
  let ?c0 = "cell_centre g" and ?c1 = "cell_v1 g" and ?c2 = "cell_u1 g"
  let ?N = "nat (nparams g)"
  let ?mv = "moment exact_arith (grid_v g)" and ?mu = "moment exact_arith (grid_u g)"
  define t0 where "t0 = fill_mask (0::real) (legacy_mask g True) ps"
  define t1 where "t1 = t0[?c1 := - ?mv t0]"
  define t2 where "t2 = t1[?c2 := - ?mu t1]"
  define t3 where "t3 = t2[?c0 := 1 / (scale g * scale g) - sum_list t2]"
  note rc = reserved_cells [OF sz]
  have pa: "\<not> fiszero exact_arith (pixel_area exact_arith g)"
    using sc by (simp add: pixel_area_def exact_arith_def)
  have r: "remap exact_arith g ps = Inr t3"
    using remap_three [OF sz pa len]
    by (simp add: Let_def t3_def t2_def t1_def t0_def pixel_area_def exact_arith_def)
  have o: "0 \<le> origin g" "origin g + 1 < size_g g" "origin g < size_g g"
    using sz by (simp_all add: origin_def)
  have u: "grid_u g ! ?c0 = 0" "grid_u g ! ?c1 = 0" "grid_u g ! ?c2 = 1"
    using o by (simp_all add: cell_centre_def cell_v1_def cell_u1_def grid_nth)
  have v: "grid_v g ! ?c0 = 0" "grid_v g ! ?c1 = 1" "grid_v g ! ?c2 = 0"
    using o by (simp_all add: cell_centre_def cell_v1_def cell_u1_def grid_nth)
  have N: "?N = nat (size_g g) * nat (size_g g)"
    using sz by (simp add: nparams_def nat_mult_distrib)
  have gl: "length (grid_u g) = ?N" "length (grid_v g) = ?N"
    by (simp_all add: grid_u_def grid_v_def Let_def N)
  have l0: "length t0 = ?N" by (simp add: t0_def length_fill_mask legacy_mask3)
  have l1: "length t1 = ?N" and l2: "length t2 = ?N" by (simp_all add: t1_def t2_def l0)
  have mf: "\<not> legacy_mask g True ! ?c0" "\<not> legacy_mask g True ! ?c1"
    "\<not> legacy_mask g True ! ?c2"
    using rc by (simp_all add: legacy_mask3_nth [OF sz])
  have z0: "t0 ! ?c0 = 0" "t0 ! ?c1 = 0" "t0 ! ?c2 = 0"
    using mf rc by (simp_all add: t0_def fill_mask_masked legacy_mask3)
  have z1: "t1 ! ?c2 = 0" "t1 ! ?c0 = 0" using z0 rc by (simp_all add: t1_def)
  have z2: "t2 ! ?c0 = 0" using z1 rc by (simp add: t2_def)
  have v1: "?mv t1 = 0"
    unfolding t1_def using moment_exact_update [of "grid_v g" t0 ?c1] gl l0 rc v z0 by simp
  have u1: "?mu t1 = ?mu t0"
    unfolding t1_def using moment_exact_update [of "grid_u g" t0 ?c1] gl l0 rc u by simp
  have v2: "?mv t2 = 0"
    unfolding t2_def using moment_exact_update [of "grid_v g" t1 ?c2] gl l1 rc v v1 by simp
  have u2: "?mu t2 = 0"
    unfolding t2_def using moment_exact_update [of "grid_u g" t1 ?c2] gl l1 rc u z1 by simp
  have v3: "?mv t3 = 0"
    unfolding t3_def using moment_exact_update [of "grid_v g" t2 ?c0] gl l2 rc v v2 by simp
  have u3: "?mu t3 = 0"
    unfolding t3_def using moment_exact_update [of "grid_u g" t2 ?c0] gl l2 rc u u2 by simp
  have s3: "sum_list t3 = sum_list t2 + (1 / (scale g * scale g) - sum_list t2)"
    unfolding t3_def using sum_list_update_real [of ?c0 t2] l2 rc z2 by simp
  have e0: "t3 ! ?c0 = 1 / (scale g * scale g) - sum_list t2"
    using l2 rc by (simp add: t3_def)
  show ?thesis using r v3 u3 e0 s3 by simp
qed

subsection \<open>\<^verbatim>\<open>normalize\<close> when the flux is fitted\<close>

lemma rd_alloc: "rd (h @ [xs]) (length h) = xs"
  by (simp add: rd_def)

lemma rd_append_length: "length (rd (h @ [xs]) a) = (if a = length h then length xs else length (rd h a))"
  by (simp add: rd_def nth_append)


text \<open>
  With \<open>fit_flux\<close> set, a star whose parameter vector has the full length is left as it is,
  and no value is divided by the sum.
\<close>

lemma normalize_fit_flux_full:
  assumes ff: "fit_flux g" and p: "sf_params (star_fit star) = Some a"
    and full: "size_g g * size_g g \<le> int (length (rd h a))"
  shows "normalize ar cp g h star = Inr (h, star)"
  using assms by (simp add: normalize_def get_params_def Let_def)


text \<open>
  Claim C8, for a legacy short vector. With \<open>fit_flux\<close> set, \<^verbatim>\<open>normalize\<close> builds the full-length
  vector \<open>t\<close>, a new array, and removes the short one from the star with
  \<^verbatim>\<open>star.fit.params = None\<close>. The call of \<^verbatim>\<open>newParams\<close> that would install \<open>t\<close> stands under
  \<^verbatim>\<open>if not self._fit_flux\<close>, so the star is left without a parameter vector: the
  reconstructed vector is not carried by the star, against the claim.
\<close>

theorem normalize_fit_flux_legacy:
  assumes ff: "fit_flux g" and p: "sf_params (star_fit star) = Some a"
    and short: "int (length (rd h a)) < size_g g * size_g g"
    and re: "remap ar g (rd h a) = Inr t"
  shows "normalize ar cp g h star
     = Inr (h @ [t], star\<lparr>star_fit := (star_fit star)\<lparr>sf_params := None\<rparr>\<rparr>)
   \<and> star_params (h @ [t]) (star\<lparr>star_fit := (star_fit star)\<lparr>sf_params := None\<rparr>\<rparr>) = None"
  using assms by (simp add: normalize_def get_params_def alloc_def Let_def star_params_def)


theorem normalize_fit_flux_legacy_witness:
  "fit_flux grid_flux3 \<and> sf_params (star_fit (star_at 0)) = Some 0
   \<and> int (length (rd [[1, 2, 3, 4, 5, 6 :: real]] 0)) < size_g grid_flux3 * size_g grid_flux3
   \<and> remap exact_arith grid_flux3 (rd [[1, 2, 3, 4, 5, 6]] 0) = Inr [1, 2, 3, 4, - 16, 1, 5, - 5, 6]
   \<and> result_params (normalize exact_arith True grid_flux3 [[1, 2, 3, 4, 5, 6]] (star_at 0)) = Inr None"
proof -
  have a: "fit_flux grid_flux3" "sf_params (star_fit (star_at 0)) = Some 0"
    "int (length (rd [[1, 2, 3, 4, 5, 6 :: real]] 0)) < size_g grid_flux3 * size_g grid_flux3"
    by (simp_all add: grid_flux3_def grid_lin3_def star_at_def fit_at_def rd_def)
  have r: "remap exact_arith grid_flux3 (rd [[1, 2, 3, 4, 5, 6]] 0)
      = Inr [1, 2, 3, 4, - 16, 1, 5, - 5, 6]"
    by code_simp
  from normalize_fit_flux_legacy [OF a r, of True] a r show ?thesis
    by (simp add: result_params_def)
qed

subsection \<open>\<^verbatim>\<open>initialize\<close>\<close>

lemma init_method_set [simp]:
  "init_method (g\<lparr>init_g := Some m\<rparr>) d = m"
  "init_method (g\<lparr>init_g := None\<rparr>) (Some m) = m"
  by (simp_all add: init_method_def)

lemma gauss_params_init [simp]:
  "gauss_params ar ml (g\<lparr>init_g := i\<rparr>) = gauss_params ar ml g"
  by (rule ext) (simp add: gauss_params_def origin_def)





text \<open>
  The method \<^verbatim>\<open>'hsm'\<close> does return a vector, the normalized Gaussian, for a star that has no
  parameters yet.
\<close>

lemma initialize_hsm_value:
  assumes "sf_params (star_fit star) = None"
  shows "result_params (initialize ar ml cp (g\<lparr>init_g := Some ''hsm''\<rparr>) h star d)
     = Inr (Some (gauss_params ar ml g (hsm_sigma (star_data star))))"
  using assms
  by (simp add: initialize_def init_params_def result_params_def alloc_def newParams_def
      Let_def star_params_def rd_def nth_append)

subsection \<open>\<^verbatim>\<open>chisq\<close> and \<^verbatim>\<open>fit\<close>\<close>

text \<open>
  What \<^verbatim>\<open>chisq\<close> returns is the star it was given with the four attributes \<^verbatim>\<open>chisq\<close>, \<^verbatim>\<open>dof\<close>,
  \<^verbatim>\<open>A\<close> and \<^verbatim>\<open>b\<close> set; what \<^verbatim>\<open>normalize\<close> does to a star whose parameter vector has the
  full length; and what \<^verbatim>\<open>fit\<close> returns when \<^verbatim>\<open>chisq\<close>, the least-squares solver and the
  computation of the variances return. The array at the address \<open>a\<close> is the parameter
  vector of the input star.
\<close>

lemma chisq_result:
  assumes "chisq ar ml sv g h star = Inr star1"
  shows "star_data star1 = star_data star
    \<and> sf_params (star_fit star1) = sf_params (star_fit star)
    \<and> sf_params_var (star_fit star1) = sf_params_var (star_fit star)
    \<and> sf_flux (star_fit star1) = sf_flux (star_fit star)
    \<and> sf_center (star_fit star1) = sf_center (star_fit star)
    \<and> (\<exists>A b chi dof. sf_A (star_fit star1) = Some A \<and> sf_b (star_fit star1) = Some b
          \<and> sf_chisq (star_fit star1) = Some chi \<and> sf_dof (star_fit star1) = Some dof)"
  using assms
  by (auto simp add: chisq_def Let_def split: option.splits sum.splits if_splits)

lemma normalize_full:
  assumes p: "sf_params (star_fit star) = Some a" and a: "a < length h"
    and full: "\<not> int (length (h ! a)) < size_g g * size_g g"
  shows "\<exists>h' a'. normalize ar cp g h star
        = Inr (h', star\<lparr>star_fit := (star_fit star)\<lparr>sf_params := Some a'\<rparr>\<rparr>)
     \<and> rd h' a' = (if fit_flux g then h ! a
                   else map (\<lambda>x. fdiv ar x (fsum ar (h ! a))) (h ! a))
     \<and> rd h' a = (if fit_flux g then h ! a
                  else map (\<lambda>x. fdiv ar x (fsum ar (h ! a))) (h ! a))
     \<and> length h \<le> length h' \<and> (\<forall>k < length h. k \<noteq> a \<longrightarrow> rd h' k = rd h k)"
proof (cases "fit_flux g")
  case True
  have "star\<lparr>star_fit := (star_fit star)\<lparr>sf_params := Some a\<rparr>\<rparr> = star"
    using p by simp
  then show ?thesis
    using assms True
    by (intro exI [of _ h] exI [of _ a]) (simp add: normalize_def get_params_def Let_def rd_def)
next
  case False
  let ?v = "map (\<lambda>x. fdiv ar x (fsum ar (h ! a))) (h ! a)"
  show ?thesis
  proof (cases cp)
    case True
    show ?thesis
      using assms \<open>\<not> fit_flux g\<close> True
      by (intro exI [of _ "h[a := ?v] @ [?v]"] exI [of _ "length h"])
        (simp add: normalize_def get_params_def Let_def rd_def newParams_def alloc_def
          nth_append)
  next
    case False
    show ?thesis
      using assms \<open>\<not> fit_flux g\<close> False
      by (intro exI [of _ "h[a := ?v]"] exI [of _ a])
        (simp add: normalize_def get_params_def Let_def rd_def newParams_def alloc_def)
  qed
qed

lemma fit_result:
  assumes ch: "chisq ar ml sv g h star = Inr star1"
    and A: "sf_A (star_fit star1) = Some A" and b: "sf_b (star_fit star1) = Some b"
    and chi: "sf_chisq (star_fit star1) = Some chi"
    and ls: "sv_lstsq sv (nat (nparams g)) A b = Inr dp"
    and pv: "params_var ar sv (nat (nparams g)) A dp = Inr pvar"
    and p: "sf_params (star_fit star) = Some a" and a: "a < length h"
    and full: "length (h ! a) = nat (nparams g)" and ldp: "length dp = nat (nparams g)"
    and sz: "0 \<le> size_g g"
  shows "\<exists>h' a'. fit ar ml sv cp g h star
        = Inr (h', \<lparr>star_data = star_data star,
                    star_fit = (star_fit star1)\<lparr>sf_params := Some a',
                       sf_params_var := Some pvar,
                       sf_chisq := Some (new_chisq ar sv A b chi dp)\<rparr>\<rparr>)
     \<and> rd h' a' = (if fit_flux g then map2 (fadd ar) (h ! a) dp
                   else map (\<lambda>x. fdiv ar x (fsum ar (map2 (fadd ar) (h ! a) dp)))
                          (map2 (fadd ar) (h ! a) dp))
     \<and> rd h' a = (if cp \<or> fit_flux g then map2 (fadd ar) (h ! a) dp
                  else map (\<lambda>x. fdiv ar x (fsum ar (map2 (fadd ar) (h ! a) dp)))
                         (map2 (fadd ar) (h ! a) dp))"
proof -
  let ?n = "nat (nparams g)"
  let ?upd = "map2 (fadd ar) (h ! a) dp"
  let ?h1 = "h[a := ?upd]"
  note cr = chisq_result [OF ch]
  have p1: "sf_params (star_fit star1) = Some a" using cr p by simp
  have ia: "iadd ar h a dp = Inr ?h1" using a full ldp by (simp add: iadd_def rd_def)
  define a2 where "a2 = (if cp then length h else a)"
  define h2 where "h2 = (if cp then ?h1 @ [?upd] else ?h1)"
  define fit2 where "fit2 = (star_fit star1)\<lparr>sf_params := Some a2, sf_params_var := Some pvar,
      sf_chisq := Some (new_chisq ar sv A b chi dp)\<rparr>"
  define star2 where "star2 = \<lparr>star_data = star_data star1, star_fit = fit2\<rparr>"
  have np: "newParams cp ?h1 (star_fit star1) a (Some pvar) (Some (new_chisq ar sv A b chi dp))
      = Inr (h2, fit2)"
    using a by (simp add: newParams_def p1 alloc_def rd_def h2_def fit2_def a2_def)
  have f: "fit ar ml sv cp g h star = normalize ar cp g h2 star2"
    by (simp add: fit_def ch A b chi ls pv ldp get_params_def p ia np star2_def Let_def)
  have a2h: "a2 < length h2" using a by (simp add: a2_def h2_def)
  have h2a2: "h2 ! a2 = ?upd" using a by (simp add: a2_def h2_def nth_append)
  have lupd: "length ?upd = ?n" using full ldp by simp
  have nn: "int ?n = size_g g * size_g g" using sz by (simp add: nparams_def)
  have nf: "\<not> int (length (h2 ! a2)) < size_g g * size_g g"
    unfolding h2a2 lupd nn by simp
  have p2: "sf_params (star_fit star2) = Some a2" by (simp add: star2_def fit2_def)
  from normalize_full [OF p2 a2h nf, of ar cp]
  obtain h' a' where n: "normalize ar cp g h2 star2
        = Inr (h', star2\<lparr>star_fit := (star_fit star2)\<lparr>sf_params := Some a'\<rparr>\<rparr>)"
    and r1: "rd h' a' = (if fit_flux g then h2 ! a2
                   else map (\<lambda>x. fdiv ar x (fsum ar (h2 ! a2))) (h2 ! a2))"
    and r2: "rd h' a2 = (if fit_flux g then h2 ! a2
                  else map (\<lambda>x. fdiv ar x (fsum ar (h2 ! a2))) (h2 ! a2))"
    and le: "length h2 \<le> length h'"
    and oth: "\<forall>k < length h2. k \<noteq> a2 \<longrightarrow> rd h' k = rd h2 k"
    by blast
  have st: "star2\<lparr>star_fit := (star_fit star2)\<lparr>sf_params := Some a'\<rparr>\<rparr>
      = \<lparr>star_data = star_data star,
         star_fit = (star_fit star1)\<lparr>sf_params := Some a', sf_params_var := Some pvar,
            sf_chisq := Some (new_chisq ar sv A b chi dp)\<rparr>\<rparr>"
    using cr by (simp add: star2_def fit2_def)
  have ra: "rd h' a = (if cp \<or> fit_flux g then ?upd
                  else map (\<lambda>x. fdiv ar x (fsum ar ?upd)) ?upd)"
  proof (cases cp)
    case True
    then have "a \<noteq> a2" "a < length h2" using a by (simp_all add: a2_def h2_def)
    then have "rd h' a = rd h2 a" using oth by simp
    also have "\<dots> = ?upd" using True a by (simp add: h2_def rd_def nth_append)
    finally show ?thesis using True by simp
  next
    case False
    then have "a2 = a" by (simp add: a2_def)
    then show ?thesis using r2 h2a2 False by simp
  qed
  show ?thesis
    using f n st r1 ra h2a2 by (intro exI [of _ h'] exI [of _ a']) simp
qed











text \<open>
  Claim C7 fails in the code. \<^verbatim>\<open>params = star.fit.get_params(self._num)\<close> is the parameter array
  of the input star, and \<^verbatim>\<open>params += dparam\<close> adds to it in place. After \<^verbatim>\<open>fit\<close> has returned, the
  input star, read through the store as it is then, has the parameters \<open>params + dp\<close>; when
  the new fit shares the array and \<open>fit_flux\<close> is not set, it has them divided by their sum.
\<close>

theorem fit_changes_input_array:
  assumes ch: "chisq ar ml sv g h star = Inr star1"
    and A: "sf_A (star_fit star1) = Some A" and b: "sf_b (star_fit star1) = Some b"
    and ls: "sv_lstsq sv (nat (nparams g)) A b = Inr dp" and ldp: "length dp = nat (nparams g)"
    and pv: "params_var ar sv (nat (nparams g)) A dp = Inr pvar"
    and p: "sf_params (star_fit star) = Some a" and a: "a < length h"
    and full: "length (h ! a) = nat (nparams g)" and sz: "0 < size_g g"
  shows "\<exists>h' star'. fit ar ml sv cp g h star = Inr (h', star')
     \<and> star_params h' star
         = Some (if cp \<or> fit_flux g then map2 (fadd ar) (h ! a) dp
                 else map (\<lambda>x. fdiv ar x (fsum ar (map2 (fadd ar) (h ! a) dp)))
                        (map2 (fadd ar) (h ! a) dp))"
proof -
  obtain chi where chi: "sf_chisq (star_fit star1) = Some chi"
    using chisq_result [OF ch] by blast
  have sz': "0 \<le> size_g g" using sz by simp
  from fit_result [OF ch A b chi ls pv p a full ldp sz', of cp]
  show ?thesis using p by (auto simp add: star_params_def)
qed

lemma chisq_one_flux:
  "chisq exact_arith ml_exact sv_one grid_one_flux [[1]] star_one
     = Inr \<lparr>star_data = star_data star_one,
            star_fit = (star_fit star_one)\<lparr>sf_chisq := Some 1, sf_dof := Some 1,
               sf_A := Some [[1]], sf_b := Some [1]\<rparr>\<rparr>"
  by (simp add: chisq_def get_params_def star_one_def fit_at_def sv_one_def rd_def
      grid_one_flux_def grid_one_def in_mask_def maxuv_def exact_arith_def pixel_area_def
      ml_exact_def fast_row_def clip_window_def cell_i_def xr_of_def origin_def Let_def
      win_cols_def py_slice_def slice_bound_def col_index_def uvwt_f_def kernel_args_def
      cell_f_def assign_cols_def nparams_def upto.simps)

lemma one_facts:
  "sv_lstsq sv_one (nat (nparams grid_one)) [[1]] [1] = Inr [1]"
  "length [1::real] = nat (nparams grid_one)"
  "params_var exact_arith sv_one (nat (nparams grid_one)) [[1]] [1] = Inr [1]"
  "sf_params (star_fit star_one) = Some 0"
  "(0::nat) < length [[1::real]]"
  "length ([[1::real]] ! 0) = nat (nparams grid_one)"
  "0 < size_g grid_one"
  "\<not> fit_flux grid_one"
  "sv_inv sv_one (sv_gram sv_one (nat (nparams grid_one)) [[1]]) = Inr [[1]]"
  by (simp_all add: star_one_def fit_at_def grid_one_def nparams_def sv_one_def
      params_var_def diagonal_def)

lemma one_flux_facts:
  "sv_lstsq sv_one (nat (nparams grid_one_flux)) [[1]] [1] = Inr [1]"
  "length [1::real] = nat (nparams grid_one_flux)"
  "params_var exact_arith sv_one (nat (nparams grid_one_flux)) [[1]] [1] = Inr [1]"
  "length ([[1::real]] ! 0) = nat (nparams grid_one_flux)"
  "0 < size_g grid_one_flux"
  "fit_flux grid_one_flux"
  by (simp_all add: grid_one_flux_def grid_one_def nparams_def sv_one_def
      params_var_def diagonal_def)

lemma one_values:
  "map2 (fadd exact_arith) ([[1]] ! 0) [1] = [2::real]"
  "map (\<lambda>x. fdiv exact_arith x (fsum exact_arith [2])) [2] = [1::real]"
  "fsub exact_arith (fadd exact_arith 1
       (sv_vdot sv_one (sv_matvec sv_one [[1]] [1]) (sv_matvec sv_one [[1]] [1])))
     (fmul exact_arith (fl exact_arith 2) (sv_vdot sv_one (sv_matvec sv_one [[1]] [1]) [1]))
     = (0::real)"
  by (simp_all add: exact_arith_def sv_one_def)

lemma star1_one_fields:
  "sf_A (star_fit \<lparr>star_data = star_data star_one,
            star_fit = (star_fit star_one)\<lparr>sf_chisq := Some 1, sf_dof := Some 1,
               sf_A := Some [[1]], sf_b := Some [1]\<rparr>\<rparr>) = Some [[1]]"
  "sf_b (star_fit \<lparr>star_data = star_data star_one,
            star_fit = (star_fit star_one)\<lparr>sf_chisq := Some 1, sf_dof := Some 1,
               sf_A := Some [[1]], sf_b := Some [1]\<rparr>\<rparr>) = Some [1]"
  "sf_chisq (star_fit \<lparr>star_data = star_data star_one,
            star_fit = (star_fit star_one)\<lparr>sf_chisq := Some 1, sf_dof := Some 1,
               sf_A := Some [[1]], sf_b := Some [1]\<rparr>\<rparr>) = Some 1"
  by simp_all





theorem fit_changes_input_array_witness:
  "star_params [[1]] star_one = Some [1]
   \<and> chisq exact_arith ml_exact sv_one grid_one_flux [[1]] star_one
     = Inr \<lparr>star_data = star_data star_one,
            star_fit = (star_fit star_one)\<lparr>sf_chisq := Some 1, sf_dof := Some 1,
               sf_A := Some [[1]], sf_b := Some [1]\<rparr>\<rparr>
   \<and> sv_lstsq sv_one (nat (nparams grid_one_flux)) [[1]] [1] = Inr [1]
   \<and> params_var exact_arith sv_one (nat (nparams grid_one_flux)) [[1]] [1] = Inr [1]
   \<and> (\<exists>h' star'. fit exact_arith ml_exact sv_one False grid_one_flux [[1]] star_one
                     = Inr (h', star')
        \<and> star_params h' star_one = Some [2])"
proof -
  note f = one_flux_facts
  note o = one_facts
  from fit_changes_input_array [OF chisq_one_flux star1_one_fields(1,2) f(1,2,3) o(4,5) f(4,5), of False]
  have "\<exists>h' star'. fit exact_arith ml_exact sv_one False grid_one_flux [[1]] star_one
                     = Inr (h', star')
        \<and> star_params h' star_one = Some [2]"
    unfolding one_values using f(6) by simp
  moreover have "star_params [[1]] star_one = Some [1]"
    by (simp add: star_params_def star_one_def fit_at_def rd_def)
  ultimately show ?thesis using chisq_one_flux f(1,3) by blast
qed




text \<open>
  In the arithmetic of the real numbers, \<^verbatim>\<open>normalize\<close> without \<open>fit_flux\<close> leaves a vector of
  sum one when the sum was not zero. In float64 the values are the rounded quotients, whose
  sum is one up to rounding only.
\<close>

lemma sum_list_divide:
  fixes xs :: "real list"
  shows "sum_list (map (\<lambda>x. x / c) xs) = sum_list xs / c"
  by (induction xs) (simp_all add: add_divide_distrib)

lemma normalize_exact_sum:
  fixes h :: "real list list"
  assumes p: "sf_params (star_fit star) = Some a" and a: "a < length h"
    and full: "\<not> int (length (h ! a)) < size_g g * size_g g"
    and ff: "\<not> fit_flux g" and s: "sum_list (h ! a) \<noteq> 0"
  shows "\<exists>h' star' ps. normalize exact_arith cp g h star = Inr (h', star')
     \<and> star_params h' star' = Some ps \<and> sum_list ps = 1"
proof -
  from normalize_full [OF p a full, of exact_arith cp]
  obtain h' a' where n: "normalize exact_arith cp g h star
        = Inr (h', star\<lparr>star_fit := (star_fit star)\<lparr>sf_params := Some a'\<rparr>\<rparr>)"
    and r: "rd h' a' = map (\<lambda>x. fdiv exact_arith x (fsum exact_arith (h ! a))) (h ! a)"
    using ff by auto
  have "sum_list (rd h' a') = 1"
    unfolding r using s by (simp add: exact_arith_def sum_list_divide)
  then show ?thesis using n by (simp add: star_params_def)
qed

end
